theory Spec2Isabelle
  imports Complex_Main
begin

section \<open>Data model of \<open>datasets/preprocessing_transforms.py\<close>\<close>

text \<open>
  Exceptions of the Python code are values. \<open>Breakpoint\<close> stands for the interactive
  \<open>pdb.set_trace()\<close> that halts \<open>_format_clip\<close>.
\<close>

datatype py_error =
    AssertionError | IndexError | TypeError | ValueError | NameError
  | AttributeError | UnboundLocalError | ZeroDivisionError | Breakpoint

text \<open>
  A frame is a PIL image, a numpy array, or an object that is neither and that numpy
  cannot turn into a numeric array (a string, say). Only the extent of an image is
  modelled: \<open>PILImage w h bands\<close> has \<open>Image.size = (w, h)\<close>, width first. A numpy array
  is modelled by its shape.
\<close>

datatype frame = PILImage int int int | NdArray "int list" | OtherObj

text \<open>
  A clip is a Python list of frames, a numpy array of at least two dimensions, or an
  object of any other type. \<open>ArrayClip n d ds\<close> is an array of shape \<open>(n, d, ds...)\<close>: its
  \<open>n\<close> elements along the first axis are arrays of shape \<open>(d, ds...)\<close>.
\<close>

datatype clip_obj = ListClip "frame list" | ArrayClip nat int "int list" | NotAClip

fun frames_of :: "clip_obj \<Rightarrow> frame list" where
  "frames_of (ListClip fs) = fs"
| "frames_of (ArrayClip n d ds) = replicate n (NdArray (d # ds))"
| "frames_of NotAClip = []"

definition clip_len :: "clip_obj \<Rightarrow> nat" where
  "clip_len clip = length (frames_of clip)"

text \<open>
  A box is one row of the bounding-box array: four numbers, by convention
  \<open>(xmin, ymin, xmax, ymax)\<close>. Numpy's float64 entries are modelled as exact reals.
  The boxes of a clip are indexed \<open>[frame][slot]\<close>; they arrive as a numpy array
  (\<open>BoxArray\<close>) or as a Python list of per-frame arrays (\<open>BoxList\<close>). The default
  argument \<open>bbox=[]\<close> is \<open>BoxList []\<close>.
\<close>

type_synonym box = "real \<times> real \<times> real \<times> real"

datatype boxes = BoxArray "box list list" | BoxList "box list list"

fun rows_of :: "boxes \<Rightarrow> box list list" where
  "rows_of (BoxArray rows) = rows"
| "rows_of (BoxList rows) = rows"

text \<open>
  The test \<open>bbox != []\<close>: false for the empty list only. Against a three-dimensional
  array numpy cannot broadcast the empty list and the comparison yields the scalar
  \<open>True\<close>.
\<close>

fun supplied :: "boxes \<Rightarrow> bool" where
  "supplied (BoxList rows) = (rows \<noteq> [])"
| "supplied (BoxArray rows) = True"

definition zero_box :: box where
  "zero_box = (0, 0, 0, 0)"

text \<open>Python's \<open>int(x)\<close> on a float truncates toward zero.\<close>

definition py_int :: "real \<Rightarrow> int" where
  "py_int x = (if 0 \<le> x then \<lfloor>x\<rfloor> else \<lceil>x\<rceil>)"

section \<open>Geometry primitives\<close>

text \<open>
  \<open>resize_bbox(xmin, xmax, ymin, ymax, img_shape, resize_shape)\<close>: index 0 of both
  shapes is read as the height, index 1 as the width; the result tuple is
  \<open>(xmin_new, xmax_new, ymin_new, ymax_new)\<close>. \<open>float(img_h)\<close> division raises on zero.
\<close>

definition resize_bbox ::
  "real \<Rightarrow> real \<Rightarrow> real \<Rightarrow> real \<Rightarrow> int \<times> int \<Rightarrow> int \<times> int \<Rightarrow> py_error + (int \<times> int \<times> int \<times> int)" where
  "resize_bbox xmin xmax ymin ymax img_shape resize_shape =
     (let img_h = fst img_shape; img_w = snd img_shape;
          res_h = fst resize_shape; res_w = snd resize_shape
      in if img_h = 0 \<or> img_w = 0 then Inl ZeroDivisionError
         else
           let frac_h = real_of_int res_h / real_of_int img_h;
               frac_w = real_of_int res_w / real_of_int img_w;
               xmin_new = py_int (xmin * frac_w);
               xmax_new = py_int (xmax * frac_w);
               ymin_new = py_int (ymin * frac_h);
               ymax_new = py_int (ymax * frac_h)
           in Inr (xmin_new, xmax_new, ymin_new, ymax_new))"

text \<open>
  \<open>crop_bbox(xmin, xmax, ymin, ymax, crop_xmin, crop_xmax, crop_ymin, crop_ymax)\<close>
  returns \<open>(xmin_new, xmax_new, ymin_new, ymax_new)\<close>.
\<close>

definition crop_bbox ::
  "real \<Rightarrow> real \<Rightarrow> real \<Rightarrow> real \<Rightarrow> real \<Rightarrow> real \<Rightarrow> real \<Rightarrow> real \<Rightarrow> real \<times> real \<times> real \<times> real" where
  "crop_bbox xmin xmax ymin ymax crop_xmin crop_xmax crop_ymin crop_ymax =
     (if xmin \<ge> crop_xmax \<or> xmax \<le> crop_xmin \<or> ymin \<ge> crop_ymax \<or> ymax \<le> crop_ymin
      then (-1, -1, -1, -1)
      else
        let ymax_new = (if ymax > crop_ymax then crop_ymax else ymax);
            xmax_new = (if xmax > crop_xmax then crop_xmax else xmax);
            ymin_new = (if ymin < crop_ymin then crop_ymin else ymin);
            xmin_new = (if xmin < crop_xmin then crop_xmin else xmin)
        in (xmin_new, xmax_new, ymin_new, ymax_new))"

text \<open>The strict non-overlap rule of the specification, for C2.\<close>

definition no_overlap :: "real \<Rightarrow> real \<Rightarrow> real \<Rightarrow> real \<Rightarrow> real \<Rightarrow> real \<Rightarrow> real \<Rightarrow> real \<Rightarrow> bool" where
  "no_overlap xmin xmax ymin ymax crop_xmin crop_xmax crop_ymin crop_ymax \<longleftrightarrow>
     xmin \<ge> crop_xmax \<or> xmax \<le> crop_xmin \<or> ymin \<ge> crop_ymax \<or> ymax \<le> crop_ymin"

section \<open>The frame adapter\<close>

text \<open>
  \<open>len(frame.size)\<close>: \<open>Image.size\<close> is a pair; \<open>ndarray.size\<close> is an integer, on which
  \<open>len\<close> raises; other objects have no such attribute.
\<close>

fun len_size :: "frame \<Rightarrow> py_error + nat" where
  "len_size (PILImage w h b) = Inr 2"
| "len_size (NdArray shape) = Inl TypeError"
| "len_size OtherObj = Inl AttributeError"

text \<open>\<open>Image.fromarray(frame, mode='F')\<close> of a two-dimensional array gives a one-band image.\<close>

fun fromarray_F :: "frame \<Rightarrow> py_error + frame" where
  "fromarray_F (NdArray [h, w]) = Inr (PILImage w h 1)"
| "fromarray_F (NdArray shape) = Inl ValueError"
| "fromarray_F (PILImage w h b) = Inr (PILImage w h 1)"
| "fromarray_F OtherObj = Inl AttributeError"

text \<open>The loop of \<open>_format_clip\<close> over the frames of a clip whose first element is an array.\<close>

fun format_frames :: "frame list \<Rightarrow> frame list \<Rightarrow> py_error + frame list" where
  "format_frames [] output_clip = Inr output_clip"
| "format_frames (frame # rest) output_clip =
     (case len_size frame of
        Inl e \<Rightarrow> Inl e
      | Inr n \<Rightarrow>
          if n = 3 then
            (case fromarray_F frame of
               Inl e \<Rightarrow> Inl e
             | Inr img \<Rightarrow> format_frames rest (output_clip @ [img]))
          else Inl Breakpoint)"

fun is_ndarray :: "frame \<Rightarrow> bool" where
  "is_ndarray (NdArray shape) = True"
| "is_ndarray f = False"

definition format_clip :: "clip_obj \<Rightarrow> py_error + clip_obj" where
  "format_clip clip =
     (if clip = NotAClip then Inl AssertionError
      else case frames_of clip of
             [] \<Rightarrow> Inl IndexError
           | first # rest \<Rightarrow>
               if is_ndarray first then
                 (case format_frames (frames_of clip) [] of
                    Inl e \<Rightarrow> Inl e
                  | Inr output_clip \<Rightarrow> Inr (ListClip output_clip))
               else Inr clip)"

text \<open>
  The stacked array handed to the model: its shape and element type. \<open>np.array\<close> of an
  image has the axes rows, columns, bands (no band axis for a one-band image).
\<close>

datatype dtype = UInt8 | Float32 | Float64

record tensor =
  tensor_shape :: "int list"
  tensor_dtype :: dtype

fun np_array_of_frame :: "frame \<Rightarrow> py_error + int list" where
  "np_array_of_frame (PILImage w h b) = Inr (if b = 1 then [h, w] else [h, w, b])"
| "np_array_of_frame (NdArray s) = Inr s"
| "np_array_of_frame OtherObj = Inl TypeError"

fun np_array_of_frames :: "frame list \<Rightarrow> py_error + int list list" where
  "np_array_of_frames [] = Inr []"
| "np_array_of_frames (frame # rest) =
     (case np_array_of_frame frame of
        Inl e \<Rightarrow> Inl e
      | Inr s \<Rightarrow> (case np_array_of_frames rest of Inl e \<Rightarrow> Inl e | Inr ss \<Rightarrow> Inr (s # ss)))"

text \<open>
  \<open>np.array\<close> of a list of equally shaped arrays adds the frame axis in front; a ragged
  list gives an object array, which \<open>torch.from_numpy\<close> rejects.
\<close>

definition stack_shapes :: "int list list \<Rightarrow> py_error + int list" where
  "stack_shapes ss =
     (case ss of
        [] \<Rightarrow> Inr [0]
      | s # rest \<Rightarrow> if list_all (\<lambda>t. t = s) rest then Inr (int (length ss) # s) else Inl TypeError)"

text \<open>
  \<open>_format_clip_numpy\<close>: the clip must be a list. When its first frame is an array the
  list goes to the final \<open>np.array\<close> as it is, and a frame in it that is no array leaves
  an object array, which \<open>torch.from_numpy\<close> rejects. Otherwise every frame is converted
  by \<open>np.array(frame)\<close> first.
\<close>

fun raw_array_frame :: "frame \<Rightarrow> py_error + int list" where
  "raw_array_frame (NdArray s) = Inr s"
| "raw_array_frame f = Inl TypeError"

fun raw_array_frames :: "frame list \<Rightarrow> py_error + int list list" where
  "raw_array_frames [] = Inr []"
| "raw_array_frames (frame # rest) =
     (case raw_array_frame frame of
        Inl e \<Rightarrow> Inl e
      | Inr s \<Rightarrow> (case raw_array_frames rest of Inl e \<Rightarrow> Inl e | Inr ss \<Rightarrow> Inr (s # ss)))"

definition format_clip_numpy :: "clip_obj \<Rightarrow> py_error + int list" where
  "format_clip_numpy clip =
     (case clip of
        ListClip fs \<Rightarrow>
          (case fs of
             [] \<Rightarrow> Inl IndexError
           | first # rest \<Rightarrow>
               if is_ndarray first then
                 (case raw_array_frames fs of
                    Inl e \<Rightarrow> Inl e
                  | Inr ss \<Rightarrow> stack_shapes ss)
               else
                 (case np_array_of_frames fs of
                    Inl e \<Rightarrow> Inl e
                  | Inr ss \<Rightarrow> stack_shapes ss))
      | ArrayClip n d ds \<Rightarrow> Inl AssertionError
      | NotAClip \<Rightarrow> Inl AssertionError)"

text \<open>
  \<open>ToTensorClip.__call__\<close>: \<open>torch.from_numpy(clip).float()\<close>, and the boxes as a tensor
  of the same rows when they are supplied.
\<close>

definition ToTensorClip_call :: "clip_obj \<Rightarrow> boxes \<Rightarrow> py_error + (tensor \<times> boxes option)" where
  "ToTensorClip_call clip bbox =
     (case format_clip_numpy clip of
        Inl e \<Rightarrow> Inl e
      | Inr s \<Rightarrow>
          Inr (\<lparr>tensor_shape = s, tensor_dtype = Float32\<rparr>,
               if supplied bbox then Some (BoxArray (rows_of bbox)) else None))"

text \<open>
  The two frame representations the specification accepts, for C7: a decoded image or a
  numeric array.
\<close>

fun classified :: "frame \<Rightarrow> bool" where
  "classified (PILImage w h b) = True"
| "classified (NdArray s) = True"
| "classified OtherObj = False"

section \<open>Image operations on a frame\<close>

text \<open>
  The image methods the units call. A frame that is not an image is taken to raise on
  them. \<open>frame.size\<close> used as a pair: an array's \<open>size\<close> is an integer and cannot be
  indexed or unpacked. \<open>Image.resize\<close> returns a copy when the target is the image's own
  size and otherwise rejects a target below 1 by 1; \<open>Image.crop\<close> rejects a rectangle
  whose right edge lies left of its left edge or whose lower edge lies above its upper
  edge. Exhausted memory and numeric overflow are outside the model.
\<close>

fun pil_size :: "frame \<Rightarrow> py_error + (int \<times> int)" where
  "pil_size (PILImage w h b) = Inr (w, h)"
| "pil_size (NdArray s) = Inl TypeError"
| "pil_size OtherObj = Inl AttributeError"

fun pil_resize :: "int \<times> int \<Rightarrow> frame \<Rightarrow> py_error + frame" where
  "pil_resize (new_w, new_h) (PILImage w h b) =
     (if (new_w, new_h) = (w, h) then Inr (PILImage w h b)
      else if new_w < 1 \<or> new_h < 1 then Inl ValueError
      else Inr (PILImage new_w new_h b))"
| "pil_resize sz f = Inl AttributeError"

fun pil_crop :: "int \<times> int \<times> int \<times> int \<Rightarrow> frame \<Rightarrow> py_error + frame" where
  "pil_crop (left, upper, right, lower) (PILImage w h b) =
     (if right < left \<or> lower < upper then Inl ValueError
      else Inr (PILImage (right - left) (lower - upper) b))"
| "pil_crop rect f = Inl AttributeError"

fun pil_transpose :: "frame \<Rightarrow> py_error + frame" where
  "pil_transpose (PILImage w h b) = Inr (PILImage w h b)"
| "pil_transpose f = Inl AttributeError"

fun pil_rotate :: "real \<Rightarrow> frame \<Rightarrow> py_error + frame" where
  "pil_rotate angle (PILImage w h b) = Inr (PILImage w h b)"
| "pil_rotate angle f = Inl AttributeError"

text \<open>A loop that applies an operation to each frame in turn and stops at the first error.\<close>

fun map_frames :: "(frame \<Rightarrow> py_error + frame) \<Rightarrow> frame list \<Rightarrow> py_error + frame list" where
  "map_frames op [] = Inr []"
| "map_frames op (frame # rest) =
     (case op frame of
        Inl e \<Rightarrow> Inl e
      | Inr g \<Rightarrow> (case map_frames op rest of Inl e \<Rightarrow> Inl e | Inr gs \<Rightarrow> Inr (g # gs)))"

section \<open>Resize and Crop\<close>

text \<open>
  \<open>bbox[frame_ind]\<close> and \<open>bbox[frame_ind, class_ind]\<close>. The second form indexes with a
  tuple, which a Python list rejects.
\<close>

definition frame_row :: "boxes \<Rightarrow> nat \<Rightarrow> py_error + box list" where
  "frame_row bbox frame_ind =
     (if frame_ind < length (rows_of bbox) then Inr (rows_of bbox ! frame_ind) else Inl IndexError)"

fun slot_read :: "boxes \<Rightarrow> nat \<Rightarrow> nat \<Rightarrow> py_error + box" where
  "slot_read (BoxList rows) frame_ind class_ind = Inl TypeError"
| "slot_read (BoxArray rows) frame_ind class_ind =
     (if frame_ind < length rows \<and> class_ind < length (rows ! frame_ind)
      then Inr (rows ! frame_ind ! class_ind) else Inl IndexError)"

text \<open>
  The inner loop \<open>for class_ind in range(len(bbox))\<close> of both units, over the list of
  indices it visits: read the slot, transform it, store it in \<open>temp_bbox\<close>.
\<close>

fun slot_loop ::
  "(box \<Rightarrow> py_error + box) \<Rightarrow> boxes \<Rightarrow> nat \<Rightarrow> nat list \<Rightarrow> box list \<Rightarrow> py_error + box list" where
  "slot_loop proc bbox frame_ind [] temp_bbox = Inr temp_bbox"
| "slot_loop proc bbox frame_ind (class_ind # rest) temp_bbox =
     (case slot_read bbox frame_ind class_ind of
        Inl e \<Rightarrow> Inl e
      | Inr b \<Rightarrow>
          (case proc b of
             Inl e \<Rightarrow> Inl e
           | Inr proc_bbox \<Rightarrow>
               slot_loop proc bbox frame_ind rest (temp_bbox[class_ind := proc_bbox])))"

text \<open>
  The outer loop \<open>for frame_ind in range(len(clip))\<close> of both units: \<open>img_op\<close> is the
  image operation, \<open>box_op frame\<close> the box primitive as the unit calls it.
\<close>

fun frame_loop ::
  "(frame \<Rightarrow> py_error + frame) \<Rightarrow> (frame \<Rightarrow> box \<Rightarrow> py_error + box) \<Rightarrow> boxes \<Rightarrow>
   frame list \<Rightarrow> nat \<Rightarrow> frame list \<Rightarrow> box list list \<Rightarrow> py_error + (frame list \<times> box list list)" where
  "frame_loop img_op box_op bbox [] frame_ind out_clip out_bbox = Inr (out_clip, out_bbox)"
| "frame_loop img_op box_op bbox (frame # rest) frame_ind out_clip out_bbox =
     (case img_op frame of
        Inl e \<Rightarrow> Inl e
      | Inr proc_frame \<Rightarrow>
          if supplied bbox then
            (case frame_row bbox frame_ind of
               Inl e \<Rightarrow> Inl e
             | Inr row \<Rightarrow>
                 (case slot_loop (box_op frame) bbox frame_ind [0 ..< length (rows_of bbox)]
                         (replicate (length row) zero_box) of
                    Inl e \<Rightarrow> Inl e
                  | Inr temp_bbox \<Rightarrow>
                      frame_loop img_op box_op bbox rest (Suc frame_ind)
                        (out_clip @ [proc_frame]) (out_bbox @ [temp_bbox])))
          else frame_loop img_op box_op bbox rest (Suc frame_ind) (out_clip @ [proc_frame]) out_bbox)"

definition unit_call ::
  "(frame \<Rightarrow> py_error + frame) \<Rightarrow> (frame \<Rightarrow> box \<Rightarrow> py_error + box) \<Rightarrow> clip_obj \<Rightarrow> boxes \<Rightarrow>
   py_error + (clip_obj \<times> boxes option)" where
  "unit_call img_op box_op clip bbox =
     (case format_clip clip of
        Inl e \<Rightarrow> Inl e
      | Inr clip' \<Rightarrow>
          (case frame_loop img_op box_op bbox (frames_of clip') 0 [] [] of
             Inl e \<Rightarrow> Inl e
           | Inr (out_clip, out_bbox) \<Rightarrow>
               Inr (ListClip out_clip, if supplied bbox then Some (BoxArray out_bbox) else None)))"

record ResizeClip =
  size_h :: int
  size_w :: int

text \<open>
  The call \<open>resize_bbox(xmin, ymin, xmax, ymax, frame.size, (self.size_w, self.size_h))\<close>
  as \<open>ResizeClip.__call__\<close> writes it, and the row \<open>temp_bbox[class_ind,:] = proc_bbox\<close>.
\<close>

definition resize_box_op :: "ResizeClip \<Rightarrow> frame \<Rightarrow> box \<Rightarrow> py_error + box" where
  "resize_box_op self frame b =
     (case b of (xmin, ymin, xmax, ymax) \<Rightarrow>
        (case pil_size frame of
           Inl e \<Rightarrow> Inl e
         | Inr frame_size \<Rightarrow>
             (case resize_bbox xmin ymin xmax ymax frame_size (size_w self, size_h self) of
                Inl e \<Rightarrow> Inl e
              | Inr (r0, r1, r2, r3) \<Rightarrow>
                  Inr (real_of_int r0, real_of_int r1, real_of_int r2, real_of_int r3))))"

definition ResizeClip_call ::
  "ResizeClip \<Rightarrow> clip_obj \<Rightarrow> boxes \<Rightarrow> py_error + (clip_obj \<times> boxes option)" where
  "ResizeClip_call self clip bbox =
     unit_call (pil_resize (size_w self, size_h self)) (resize_box_op self) clip bbox"

record CropClip =
  bbox_xmin :: int
  bbox_xmax :: int
  bbox_ymin :: int
  bbox_ymax :: int

definition update_bbox :: "CropClip \<Rightarrow> int \<Rightarrow> int \<Rightarrow> int \<Rightarrow> int \<Rightarrow> CropClip" where
  "update_bbox self x0 x1 y0 y1 =
     self\<lparr>bbox_xmin := x0, bbox_xmax := x1, bbox_ymin := y0, bbox_ymax := y1\<rparr>"

text \<open>
  The call \<open>crop_bbox(xmin, ymin, xmax, ymax, self.bbox_xmin, self.bbox_xmax,
  self.bbox_ymin, self.bbox_ymax)\<close> as \<open>CropClip.__call__\<close> writes it.
\<close>

definition crop_box_op :: "CropClip \<Rightarrow> frame \<Rightarrow> box \<Rightarrow> py_error + box" where
  "crop_box_op self frame b =
     (case b of (xmin, ymin, xmax, ymax) \<Rightarrow>
        Inr (crop_bbox xmin ymin xmax ymax
               (real_of_int (bbox_xmin self)) (real_of_int (bbox_xmax self))
               (real_of_int (bbox_ymin self)) (real_of_int (bbox_ymax self))))"

definition CropClip_call ::
  "CropClip \<Rightarrow> clip_obj \<Rightarrow> boxes \<Rightarrow> py_error + (clip_obj \<times> boxes option)" where
  "CropClip_call self clip bbox =
     unit_call (pil_crop (bbox_xmin self, bbox_ymin self, bbox_xmax self, bbox_ymax self))
       (crop_box_op self) clip bbox"

section \<open>RandomCrop and CenterCrop\<close>

text \<open>
  \<open>np.random.randint(low, high)\<close> draws from \<open>[low, high)\<close> and raises when that range
  is empty. The generator's raw draw is a parameter of the model; every value of the
  range is the image of some draw.
\<close>

definition randint :: "nat \<Rightarrow> int \<Rightarrow> int \<Rightarrow> py_error + int" where
  "randint draw low high =
     (if low < high then Inr (low + int draw mod (high - low)) else Inl ValueError)"

record RandomCropClip =
  crop_w :: int
  crop_h :: int
  crop_transform :: CropClip
  self_xmin :: "int option"
  self_xmax :: "int option"
  self_ymin :: "int option"
  self_ymax :: "int option"

text \<open>\<open>RandomCropClip.__init__\<close>: the inner unit is \<open>CropClip(0, 0, crop_w, crop_h)\<close>.\<close>

definition RandomCropClip_init :: "int \<Rightarrow> int \<Rightarrow> RandomCropClip" where
  "RandomCropClip_init w h =
     \<lparr>crop_w = w, crop_h = h,
      crop_transform = \<lparr>bbox_xmin = 0, bbox_xmax = 0, bbox_ymin = w, bbox_ymax = h\<rparr>,
      self_xmin = None, self_xmax = None, self_ymin = None, self_ymax = None\<rparr>"

text \<open>
  \<open>_update_random_sample\<close>: the object as the method leaves it, and the exception if one
  of the two draws raises (the x fields are then already written).
\<close>

definition update_random_sample ::
  "RandomCropClip \<Rightarrow> nat \<Rightarrow> nat \<Rightarrow> int \<Rightarrow> int \<Rightarrow> RandomCropClip \<times> py_error option" where
  "update_random_sample self draw_x draw_y frame_w frame_h =
     (case randint draw_x 0 (frame_w - crop_w self) of
        Inl e \<Rightarrow> (self, Some e)
      | Inr x \<Rightarrow>
          let self1 = self\<lparr>self_xmin := Some x, self_xmax := Some (x + crop_w self)\<rparr>
          in (case randint draw_y 0 (frame_h - crop_h self1) of
                Inl e \<Rightarrow> (self1, Some e)
              | Inr y \<Rightarrow>
                  (self1\<lparr>self_ymin := Some y, self_ymax := Some (y + crop_h self1)\<rparr>, None)))"

definition get_random_sample ::
  "RandomCropClip \<Rightarrow> int option \<times> int option \<times> int option \<times> int option" where
  "get_random_sample self = (self_xmin self, self_xmax self, self_ymin self, self_ymax self)"

text \<open>\<open>clip[0].size\<close> of a formatted clip.\<close>

definition first_frame_size :: "clip_obj \<Rightarrow> py_error + (int \<times> int)" where
  "first_frame_size clip =
     (case frames_of clip of [] \<Rightarrow> Inl IndexError | first # rest \<Rightarrow> pil_size first)"

definition RandomCropClip_call ::
  "RandomCropClip \<Rightarrow> nat \<Rightarrow> nat \<Rightarrow> clip_obj \<Rightarrow> boxes \<Rightarrow>
   RandomCropClip \<times> (py_error + (clip_obj \<times> boxes option))" where
  "RandomCropClip_call self draw_x draw_y clip bbox =
     (case format_clip clip of
        Inl e \<Rightarrow> (self, Inl e)
      | Inr clip' \<Rightarrow>
          (case first_frame_size clip' of
             Inl e \<Rightarrow> (self, Inl e)
           | Inr frame_shape \<Rightarrow>
               (case update_random_sample self draw_x draw_y (fst frame_shape) (snd frame_shape) of
                  (self1, Some e) \<Rightarrow> (self1, Inl e)
                | (self1, None) \<Rightarrow>
                    (case get_random_sample self1 of
                       (Some x0, Some x1, Some y0, Some y1) \<Rightarrow>
                         let self2 = self1\<lparr>crop_transform :=
                                       update_bbox (crop_transform self1) x0 x1 y0 y1\<rparr>
                         in (self2, CropClip_call (crop_transform self2) clip' bbox)
                     | other \<Rightarrow> (self1, Inl TypeError)))))"

record CenterCropClip =
  center_crop_w :: int
  center_crop_h :: int
  center_crop_transform :: CropClip

text \<open>\<open>_calculate_center\<close>: true division, then \<open>int\<close>; the result is \<open>(xmin, xmax, ymin, ymax)\<close>.\<close>

definition calculate_center :: "CenterCropClip \<Rightarrow> int \<Rightarrow> int \<Rightarrow> int \<times> int \<times> int \<times> int" where
  "calculate_center self frame_w frame_h =
     (py_int (real_of_int frame_w / 2 - real_of_int (center_crop_w self) / 2),
      py_int (real_of_int frame_w / 2 + real_of_int (center_crop_w self) / 2),
      py_int (real_of_int frame_h / 2 - real_of_int (center_crop_h self) / 2),
      py_int (real_of_int frame_h / 2 + real_of_int (center_crop_h self) / 2))"

definition CenterCropClip_call ::
  "CenterCropClip \<Rightarrow> clip_obj \<Rightarrow> boxes \<Rightarrow>
   CenterCropClip \<times> (py_error + (clip_obj \<times> boxes option))" where
  "CenterCropClip_call self clip bbox =
     (case format_clip clip of
        Inl e \<Rightarrow> (self, Inl e)
      | Inr clip' \<Rightarrow>
          (case first_frame_size clip' of
             Inl e \<Rightarrow> (self, Inl e)
           | Inr frame_shape \<Rightarrow>
               (case calculate_center self (fst frame_shape) (snd frame_shape) of
                  (x0, x1, y0, y1) \<Rightarrow>
                    let self1 = self\<lparr>center_crop_transform :=
                                  update_bbox (center_crop_transform self) x0 x1 y0 y1\<rparr>
                    in (self1, CropClip_call (center_crop_transform self1) clip' bbox))))"

section \<open>RandomFlip\<close>

record RandomFlipClip =
  direction :: string
  self_p :: real

text \<open>\<open>_random_flip\<close>, with the value of \<open>np.random.random()\<close> as a parameter.\<close>

definition random_flip :: "RandomFlipClip \<Rightarrow> real \<Rightarrow> bool" where
  "random_flip self flip_prob = (if flip_prob \<ge> self_p self then False else True)"

text \<open>\<open>_h_flip\<close>: \<open>width = frame_size[1]\<close>.\<close>

definition h_flip :: "box list \<Rightarrow> int \<times> int \<Rightarrow> box list" where
  "h_flip bbox frame_size =
     map (\<lambda>(xmin, ymin, xmax, ymax).
            let width = real_of_int (snd frame_size);
                xmax_new = width - xmin;
                xmin_new = width - xmax
            in (xmin_new, ymin, xmax_new, ymax)) bbox"

text \<open>
  \<open>_v_flip\<close>: the row it stores names \<open>xmin_new\<close> and \<open>xmax_new\<close>, which the method never
  assigns, so the first box raises; with no box the loop body does not run.
\<close>

definition v_flip :: "box list \<Rightarrow> int \<times> int \<Rightarrow> py_error + box list" where
  "v_flip bbox frame_size = (if bbox = [] then Inr [] else Inl NameError)"

text \<open>
  The comprehension \<open>[flip(curr_bbox, output_clip[0].size) for curr_bbox in bbox]\<close>.
\<close>

fun flip_rows ::
  "(box list \<Rightarrow> int \<times> int \<Rightarrow> py_error + box list) \<Rightarrow> frame list \<Rightarrow> box list list \<Rightarrow>
   py_error + box list list" where
  "flip_rows flip output_clip [] = Inr []"
| "flip_rows flip output_clip (curr_bbox # rest) =
     (case first_frame_size (ListClip output_clip) of
        Inl e \<Rightarrow> Inl e
      | Inr frame_size \<Rightarrow>
          (case flip curr_bbox frame_size of
             Inl e \<Rightarrow> Inl e
           | Inr row \<Rightarrow>
               (case flip_rows flip output_clip rest of
                  Inl e \<Rightarrow> Inl e
                | Inr rows \<Rightarrow> Inr (row # rows))))"

definition flip_data ::
  "RandomFlipClip \<Rightarrow> clip_obj \<Rightarrow> boxes \<Rightarrow> py_error + (clip_obj \<times> boxes)" where
  "flip_data self clip bbox =
     (if direction self = ''h'' then
        (case map_frames pil_transpose (frames_of clip) of
           Inl e \<Rightarrow> Inl e
         | Inr output_clip \<Rightarrow>
             if supplied bbox then
               (case flip_rows (\<lambda>b sz. Inr (h_flip b sz)) output_clip (rows_of bbox) of
                  Inl e \<Rightarrow> Inl e
                | Inr output_bbox \<Rightarrow> Inr (ListClip output_clip, BoxList output_bbox))
             else Inr (ListClip output_clip, BoxList []))
      else if direction self = ''v'' then
        (case map_frames pil_transpose (frames_of clip) of
           Inl e \<Rightarrow> Inl e
         | Inr output_clip \<Rightarrow>
             if supplied bbox then
               (case flip_rows v_flip output_clip (rows_of bbox) of
                  Inl e \<Rightarrow> Inl e
                | Inr output_bbox \<Rightarrow> Inr (ListClip output_clip, BoxList output_bbox))
             else Inr (ListClip output_clip, BoxList []))
      else Inl UnboundLocalError)"

definition RandomFlipClip_call ::
  "RandomFlipClip \<Rightarrow> real \<Rightarrow> clip_obj \<Rightarrow> boxes \<Rightarrow> py_error + (clip_obj \<times> boxes option)" where
  "RandomFlipClip_call self flip_prob clip bbox =
     (case format_clip clip of
        Inl e \<Rightarrow> Inl e
      | Inr clip' \<Rightarrow>
          if random_flip self flip_prob then
            (case flip_data self clip' bbox of
               Inl e \<Rightarrow> Inl e
             | Inr (out_clip, out_bbox) \<Rightarrow>
                 Inr (out_clip, if supplied bbox then Some out_bbox else None))
          else Inr (clip', if supplied bbox then Some bbox else None))"

section \<open>RandomRotate\<close>

text \<open>
  The floating-point functions of numpy are modelled by the real functions they
  approximate. \<open>np.arctan2(y, x)\<close> is the angle of the point \<open>(x, y)\<close> in \<open>(-pi, pi]\<close>.
\<close>

definition deg2rad :: "real \<Rightarrow> real" where
  "deg2rad a = a * pi / 180"

definition arctan2 :: "real \<Rightarrow> real \<Rightarrow> real" where
  "arctan2 y x =
     (if 0 < x then arctan (y / x)
      else if x < 0 then (if 0 \<le> y then arctan (y / x) + pi else arctan (y / x) - pi)
      else if 0 < y then pi / 2
      else if y < 0 then - pi / 2
      else 0)"

fun cart2pol :: "real \<times> real \<Rightarrow> real \<times> real" where
  "cart2pol (x, y) = (sqrt (x\<^sup>2 + y\<^sup>2), arctan2 y x)"

fun pol2cart :: "real \<times> real \<Rightarrow> real \<times> real" where
  "pol2cart (rho, phi) = (rho * cos phi, rho * sin phi)"

definition min4 :: "real \<Rightarrow> real \<Rightarrow> real \<Rightarrow> real \<Rightarrow> real" where
  "min4 a b c d = min (min (min a b) c) d"

definition max4 :: "real \<Rightarrow> real \<Rightarrow> real \<Rightarrow> real \<Rightarrow> real" where
  "max4 a b c d = max (max (max a b) c) d"

text \<open>One corner of \<open>_rotate_bbox\<close>: to polar form, add the angle, back, re-centre.\<close>

definition rotate_corner :: "real \<Rightarrow> real \<Rightarrow> real \<Rightarrow> real \<times> real \<Rightarrow> real \<times> real" where
  "rotate_corner half_w half_h angle corner =
     (let c1 = cart2pol corner;
          c2 = (fst c1, snd c1 + angle);
          c3 = pol2cart c2
      in (fst c3 + half_w, snd c3 + half_h))"

text \<open>
  \<open>_rotate_bbox(bboxes, frame_shape, angle)\<close>: \<open>frame_h, frame_w = frame_shape\<close>, so the
  first component of the shape is read as the height.
\<close>

definition rotate_bbox :: "box list \<Rightarrow> int \<times> int \<Rightarrow> real \<Rightarrow> box list" where
  "rotate_bbox bboxes frame_shape angle_deg =
     (let angle = deg2rad angle_deg;
          frame_h = fst frame_shape;
          frame_w = snd frame_shape;
          half_h = real_of_int frame_h / 2;
          half_w = real_of_int frame_w / 2
      in map (\<lambda>(xmin, ymin, xmax, ymax).
                let tl = rotate_corner half_w half_h angle (xmin - half_w, ymax - half_h);
                    tr = rotate_corner half_w half_h angle (xmax - half_w, ymax - half_h);
                    bl = rotate_corner half_w half_h angle (xmin - half_w, ymin - half_h);
                    br = rotate_corner half_w half_h angle (xmax - half_w, ymin - half_h);
                    xmin_new = py_int (min4 (fst tl) (fst tr) (fst bl) (fst br));
                    xmax_new = py_int (max4 (fst tl) (fst tr) (fst bl) (fst br));
                    ymin_new = py_int (min4 (snd tl) (snd tr) (snd bl) (snd br));
                    ymax_new = py_int (max4 (snd tl) (snd tr) (snd bl) (snd br))
                in (real_of_int xmin_new, real_of_int ymin_new,
                    real_of_int xmax_new, real_of_int ymax_new)) bboxes)"

text \<open>
  The rotation the specification describes, for C5: the same computation about the
  centre \<open>(width / 2, height / 2)\<close> of a frame whose extent is given as \<open>(width, height)\<close>.
\<close>

definition spec_rotate_box :: "box \<Rightarrow> int \<times> int \<Rightarrow> real \<Rightarrow> box" where
  "spec_rotate_box b extent angle_deg =
     (case b of (xmin, ymin, xmax, ymax) \<Rightarrow>
        let angle = deg2rad angle_deg;
            cx = real_of_int (fst extent) / 2;
            cy = real_of_int (snd extent) / 2;
            tl = rotate_corner cx cy angle (xmin - cx, ymax - cy);
            tr = rotate_corner cx cy angle (xmax - cx, ymax - cy);
            bl = rotate_corner cx cy angle (xmin - cx, ymin - cy);
            br = rotate_corner cx cy angle (xmax - cx, ymin - cy)
        in (real_of_int (py_int (min4 (fst tl) (fst tr) (fst bl) (fst br))),
            real_of_int (py_int (min4 (snd tl) (snd tr) (snd bl) (snd br))),
            real_of_int (py_int (max4 (fst tl) (fst tr) (fst bl) (fst br))),
            real_of_int (py_int (max4 (snd tl) (snd tr) (snd bl) (snd br)))))"

record RandomRotateClip =
  angles :: "real list"

text \<open>\<open>np.random.choice\<close> of a list, with the generator's raw draw as a parameter.\<close>

definition random_choice :: "nat \<Rightarrow> real list \<Rightarrow> py_error + real" where
  "random_choice draw xs = (if xs = [] then Inl ValueError else Inr (xs ! (draw mod length xs)))"

text \<open>The loop \<open>for bbox_ind in range(bbox.shape[0])\<close> of \<open>RandomRotateClip.__call__\<close>.\<close>

fun rotate_rows :: "clip_obj \<Rightarrow> real \<Rightarrow> box list list \<Rightarrow> py_error + box list list" where
  "rotate_rows clip angle [] = Inr []"
| "rotate_rows clip angle (row # rest) =
     (case first_frame_size clip of
        Inl e \<Rightarrow> Inl e
      | Inr frame_shape \<Rightarrow>
          (case rotate_rows clip angle rest of
             Inl e \<Rightarrow> Inl e
           | Inr rows \<Rightarrow> Inr (rotate_bbox row frame_shape angle # rows)))"

definition RandomRotateClip_call ::
  "RandomRotateClip \<Rightarrow> nat \<Rightarrow> clip_obj \<Rightarrow> boxes \<Rightarrow> py_error + (clip_obj \<times> boxes option)" where
  "RandomRotateClip_call self draw clip bbox =
     (case random_choice draw (angles self) of
        Inl e \<Rightarrow> Inl e
      | Inr angle \<Rightarrow>
          if clip = NotAClip then Inl TypeError
          else
            (case map_frames (pil_rotate angle) (frames_of clip) of
               Inl e \<Rightarrow> Inl e
             | Inr output_clip \<Rightarrow>
                 if supplied bbox then
                   (case rotate_rows clip angle (rows_of bbox) of
                      Inl e \<Rightarrow> Inl e
                    | Inr output_bboxes \<Rightarrow> Inr (ListClip output_clip, Some (BoxArray output_bboxes)))
                 else Inr (ListClip output_clip, None)))"

section \<open>Pipeline composition\<close>

datatype transform_unit =
    Resize ResizeClip
  | Crop CropClip
  | RandomCrop RandomCropClip
  | CenterCrop CenterCropClip
  | RandomFlip RandomFlipClip
  | RandomRotate RandomRotateClip

text \<open>The random values one call of a unit may consume.\<close>

record draws =
  draw_x :: nat
  draw_y :: nat
  draw_flip :: real
  draw_choice :: nat

fun apply_unit ::
  "transform_unit \<Rightarrow> draws \<Rightarrow> clip_obj \<Rightarrow> boxes \<Rightarrow> py_error + (clip_obj \<times> boxes option)" where
  "apply_unit (Resize u) d clip bbox = ResizeClip_call u clip bbox"
| "apply_unit (Crop u) d clip bbox = CropClip_call u clip bbox"
| "apply_unit (RandomCrop u) d clip bbox = snd (RandomCropClip_call u (draw_x d) (draw_y d) clip bbox)"
| "apply_unit (CenterCrop u) d clip bbox = snd (CenterCropClip_call u clip bbox)"
| "apply_unit (RandomFlip u) d clip bbox = RandomFlipClip_call u (draw_flip d) clip bbox"
| "apply_unit (RandomRotate u) d clip bbox = RandomRotateClip_call u (draw_choice d) clip bbox"

text \<open>
  Modelled from the spec: \<open>apply_sequence\<close>, the left-to-right fold of section 4.4, is
  not part of the module; each unit's output is the next unit's input, the first failing
  unit aborts the sequence, and a unit that returns no boxes leaves the next one with
  the default \<open>bbox=[]\<close>.
\<close>

fun apply_sequence ::
  "(transform_unit \<times> draws) list \<Rightarrow> clip_obj \<Rightarrow> boxes \<Rightarrow> py_error + (clip_obj \<times> boxes option)" where
  "apply_sequence [] clip bbox = Inr (clip, if supplied bbox then Some bbox else None)"
| "apply_sequence ((u, d) # rest) clip bbox =
     (case apply_unit u d clip bbox of
        Inl e \<Rightarrow> Inl e
      | Inr (clip', out_bbox) \<Rightarrow>
          apply_sequence rest clip' (case out_bbox of None \<Rightarrow> BoxList [] | Some b \<Rightarrow> b))"

text \<open>A pipeline of five units and the random values of one run, for the C8 witness.\<close>

definition example_draws :: draws where
  "example_draws = \<lparr>draw_x = 7, draw_y = 3, draw_flip = 1 / 4, draw_choice = 1\<rparr>"

definition example_units :: "(transform_unit \<times> draws) list" where
  "example_units =
     [(Resize \<lparr>size_h = 50, size_w = 50\<rparr>, example_draws),
      (CenterCrop \<lparr>center_crop_w = 20, center_crop_h = 20,
                   center_crop_transform =
                     \<lparr>bbox_xmin = 0, bbox_xmax = 0, bbox_ymin = 20, bbox_ymax = 20\<rparr>\<rparr>, example_draws),
      (RandomCrop (RandomCropClip_init 10 10), example_draws),
      (RandomFlip \<lparr>direction = ''h'', self_p = 1 / 2\<rparr>, example_draws),
      (RandomRotate \<lparr>angles = [0, 90, 180, 270]\<rparr>, example_draws)]"

section \<open>Evaluation lemmas\<close>

lemmas unit_eval =
  unit_call_def format_clip_def frame_row_def zero_box_def py_int_def first_frame_size_def

section \<open>The crop primitive\<close>

text \<open>
  C2 (as stated, refuted). The point box \<open>(-1, -1, -1, -1)\<close> lies strictly inside the
  crop rectangle \<open>[-2, 0] \<times> [-2, 0]\<close>, so the strict rule reports an overlap, and the
  clipped box that \<open>crop_bbox\<close> returns is the sentinel value itself.
\<close>

theorem C2_sentinel_counterexample:
  "(-1::real) \<le> -1 \<and> (-2::real) \<le> 0
   \<and> \<not> no_overlap (-1) (-1) (-1) (-1) (-2) 0 (-2) 0
   \<and> crop_bbox (-1) (-1) (-1) (-1) (-2) 0 (-2) 0 = (-1, -1, -1, -1)"
  by (simp add: no_overlap_def crop_bbox_def)

text \<open>
  C2 (amended). For a well-formed box and crop rectangle, \<open>crop_bbox\<close> called in its
  declared parameter order returns the sentinel whenever the strict rule reports no
  overlap; otherwise it returns each edge clipped to the rectangle, a box contained in
  the rectangle and in the coordinates of the frame. When the rectangle has a
  non-negative \<open>crop_xmin\<close> or \<open>crop_ymin\<close>, the clipped box is never the sentinel, so the
  sentinel is returned if and only if there is no overlap.
\<close>

theorem crop_bbox_contract:
  assumes "xmin \<le> xmax" and "ymin \<le> ymax"
    and "crop_xmin \<le> crop_xmax" and "crop_ymin \<le> crop_ymax"
  shows "(no_overlap xmin xmax ymin ymax crop_xmin crop_xmax crop_ymin crop_ymax \<longrightarrow>
            crop_bbox xmin xmax ymin ymax crop_xmin crop_xmax crop_ymin crop_ymax = (-1, -1, -1, -1))
       \<and> (\<not> no_overlap xmin xmax ymin ymax crop_xmin crop_xmax crop_ymin crop_ymax \<longrightarrow>
            crop_bbox xmin xmax ymin ymax crop_xmin crop_xmax crop_ymin crop_ymax
              = (max xmin crop_xmin, min xmax crop_xmax, max ymin crop_ymin, min ymax crop_ymax)
            \<and> crop_xmin \<le> max xmin crop_xmin \<and> max xmin crop_xmin \<le> min xmax crop_xmax
            \<and> min xmax crop_xmax \<le> crop_xmax
            \<and> crop_ymin \<le> max ymin crop_ymin \<and> max ymin crop_ymin \<le> min ymax crop_ymax
            \<and> min ymax crop_ymax \<le> crop_ymax)
       \<and> (0 \<le> crop_xmin \<or> 0 \<le> crop_ymin \<longrightarrow>
            (crop_bbox xmin xmax ymin ymax crop_xmin crop_xmax crop_ymin crop_ymax = (-1, -1, -1, -1)
             \<longleftrightarrow> no_overlap xmin xmax ymin ymax crop_xmin crop_xmax crop_ymin crop_ymax))"
proof (intro conjI impI)
  assume "no_overlap xmin xmax ymin ymax crop_xmin crop_xmax crop_ymin crop_ymax"
  then show "crop_bbox xmin xmax ymin ymax crop_xmin crop_xmax crop_ymin crop_ymax = (-1, -1, -1, -1)"
    by (simp add: no_overlap_def crop_bbox_def)
next
  assume ov: "\<not> no_overlap xmin xmax ymin ymax crop_xmin crop_xmax crop_ymin crop_ymax"
  then show "crop_bbox xmin xmax ymin ymax crop_xmin crop_xmax crop_ymin crop_ymax
      = (max xmin crop_xmin, min xmax crop_xmax, max ymin crop_ymin, min ymax crop_ymax)"
    by (auto simp: no_overlap_def crop_bbox_def Let_def max_def min_def)
  show "crop_xmin \<le> max xmin crop_xmin" by simp
  show "max xmin crop_xmin \<le> min xmax crop_xmax"
    using ov assms by (simp add: no_overlap_def)
  show "min xmax crop_xmax \<le> crop_xmax" by simp
  show "crop_ymin \<le> max ymin crop_ymin" by simp
  show "max ymin crop_ymin \<le> min ymax crop_ymax"
    using ov assms by (simp add: no_overlap_def)
  show "min ymax crop_ymax \<le> crop_ymax" by simp
next
  assume nn: "0 \<le> crop_xmin \<or> 0 \<le> crop_ymin"
  show "crop_bbox xmin xmax ymin ymax crop_xmin crop_xmax crop_ymin crop_ymax = (-1, -1, -1, -1)
        \<longleftrightarrow> no_overlap xmin xmax ymin ymax crop_xmin crop_xmax crop_ymin crop_ymax"
    using nn by (auto simp: no_overlap_def crop_bbox_def Let_def split: if_splits)
qed

theorem crop_bbox_contract_witness:
  "crop_bbox 5 25 5 25 15 35 15 35 = (15, 25, 15, 25)
   \<and> crop_bbox 40 45 5 25 15 35 15 35 = (-1, -1, -1, -1)
   \<and> \<not> no_overlap 5 25 5 25 15 35 15 35
   \<and> no_overlap 40 45 5 25 15 35 15 35"
proof -
  have a: "\<not> no_overlap 5 25 5 25 15 35 15 35" by (simp add: no_overlap_def)
  have b: "no_overlap 40 45 5 25 15 35 15 35" by (simp add: no_overlap_def)
  show ?thesis
    using a b crop_bbox_contract [of 5 25 5 25 15 35 15 35]
      crop_bbox_contract [of 40 45 5 25 15 35 15 35]
    by simp
qed

section \<open>Resize and the end-to-end example\<close>

text \<open>
  C1 (the code diverges). On the 4-frame clip of extent 100 by 100 with one box per
  frame, \<open>ResizeClip\<close> raises IndexError: its slot loop runs over the four frames of
  the box array, and a frame has one slot. On a one-frame clip the resize gives
  \<open>(5, 5, 25, 25)\<close> and \<open>CenterCropClip(20, 20)\<close> uses the rectangle \<open>(15, 15, 35, 35)\<close>,
  but the box comes back as the sentinel, because \<open>crop_bbox\<close> receives
  \<open>(xmin, ymin, xmax, ymax)\<close> in parameters declared \<open>(xmin, xmax, ymin, ymax)\<close>; in
  the declared order the primitive gives the box \<open>(15, 15, 25, 25)\<close> of the example.
\<close>

theorem C1_end_to_end_diverges:
  "ResizeClip_call \<lparr>size_h = 50, size_w = 50\<rparr>
     (ListClip (replicate 4 (PILImage 100 100 3)))
     (BoxArray (replicate 4 [(10, 10, 50, 50)])) = Inl IndexError
   \<and> ResizeClip_call \<lparr>size_h = 50, size_w = 50\<rparr>
       (ListClip [PILImage 100 100 3]) (BoxArray [[(10, 10, 50, 50)]])
       = Inr (ListClip [PILImage 50 50 3], Some (BoxArray [[(5, 5, 25, 25)]]))
   \<and> CenterCropClip_call
       \<lparr>center_crop_w = 20, center_crop_h = 20,
        center_crop_transform = \<lparr>bbox_xmin = 0, bbox_xmax = 0, bbox_ymin = 20, bbox_ymax = 20\<rparr>\<rparr>
       (ListClip [PILImage 50 50 3]) (BoxArray [[(5, 5, 25, 25)]])
       = (\<lparr>center_crop_w = 20, center_crop_h = 20,
           center_crop_transform = \<lparr>bbox_xmin = 15, bbox_xmax = 35, bbox_ymin = 15, bbox_ymax = 35\<rparr>\<rparr>,
          Inr (ListClip [PILImage 20 20 3], Some (BoxArray [[(-1, -1, -1, -1)]])))
   \<and> crop_bbox 5 25 5 25 15 35 15 35 = (15, 25, 15, 25)"
proof (intro conjI)
  show "ResizeClip_call \<lparr>size_h = 50, size_w = 50\<rparr>
     (ListClip (replicate 4 (PILImage 100 100 3)))
     (BoxArray (replicate 4 [(10, 10, 50, 50)])) = Inl IndexError"
    by (simp add: ResizeClip_call_def resize_box_op_def resize_bbox_def unit_eval
          numeral_eq_Suc upt_rec)
  show "ResizeClip_call \<lparr>size_h = 50, size_w = 50\<rparr>
       (ListClip [PILImage 100 100 3]) (BoxArray [[(10, 10, 50, 50)]])
       = Inr (ListClip [PILImage 50 50 3], Some (BoxArray [[(5, 5, 25, 25)]]))"
    by (simp add: ResizeClip_call_def resize_box_op_def resize_bbox_def unit_eval)
  show "CenterCropClip_call
       \<lparr>center_crop_w = 20, center_crop_h = 20,
        center_crop_transform = \<lparr>bbox_xmin = 0, bbox_xmax = 0, bbox_ymin = 20, bbox_ymax = 20\<rparr>\<rparr>
       (ListClip [PILImage 50 50 3]) (BoxArray [[(5, 5, 25, 25)]])
       = (\<lparr>center_crop_w = 20, center_crop_h = 20,
           center_crop_transform = \<lparr>bbox_xmin = 15, bbox_xmax = 35, bbox_ymin = 15, bbox_ymax = 35\<rparr>\<rparr>,
          Inr (ListClip [PILImage 20 20 3], Some (BoxArray [[(-1, -1, -1, -1)]])))"
    by (simp add: CenterCropClip_call_def calculate_center_def update_bbox_def
          CropClip_call_def crop_box_op_def crop_bbox_def unit_eval)
  show "crop_bbox 5 25 5 25 15 35 15 35 = (15, 25, 15, 25)"
    by (simp add: crop_bbox_def)
qed

text \<open>
  C3 (the code diverges). A 4 by 4 frame resized to width 2 and height 4 has the width
  ratio 1/2 and the height ratio 1; the box \<open>(2, 2, 4, 4)\<close> should become
  \<open>(1, 2, 2, 4)\<close>. \<open>ResizeClip\<close> returns \<open>(2, 2, 2, 2)\<close>: \<open>xmin\<close> is scaled by the height
  ratio and \<open>ymax\<close> by the width ratio. All the products are exact in binary floating
  point.
\<close>

theorem C3_resize_scales_wrong_axis:
  "ResizeClip_call \<lparr>size_h = 4, size_w = 2\<rparr>
     (ListClip [PILImage 4 4 3]) (BoxArray [[(2, 2, 4, 4)]])
     = Inr (ListClip [PILImage 2 4 3], Some (BoxArray [[(2, 2, 2, 2)]]))"
  by (simp add: ResizeClip_call_def resize_box_op_def resize_bbox_def unit_eval)

section \<open>Flip and rotation\<close>

text \<open>
  C4 (the code diverges). On a frame of width 200 and height 100 with the box
  \<open>(10, 10, 50, 50)\<close>, a performed horizontal flip returns \<open>(50, 10, 90, 50)\<close>, the
  reflection about the height 100 instead of \<open>(150, 10, 190, 50)\<close>; a performed
  vertical flip raises NameError instead of returning \<open>(10, 50, 50, 90)\<close>.
\<close>

theorem C4_flip_diverges:
  "RandomFlipClip_call \<lparr>direction = ''h'', self_p = 1 / 2\<rparr> (1 / 4)
     (ListClip [PILImage 200 100 3]) (BoxArray [[(10, 10, 50, 50)]])
     = Inr (ListClip [PILImage 200 100 3], Some (BoxList [[(50, 10, 90, 50)]]))
   \<and> RandomFlipClip_call \<lparr>direction = ''v'', self_p = 1 / 2\<rparr> (1 / 4)
       (ListClip [PILImage 200 100 3]) (BoxArray [[(10, 10, 50, 50)]])
       = Inl NameError"
  by (simp add: RandomFlipClip_call_def random_flip_def flip_data_def h_flip_def v_flip_def
        unit_eval)

lemma sqrt_factor_pos:
  fixes x y :: real
  assumes "0 < x"
  shows "sqrt (x\<^sup>2 + y\<^sup>2) = x * sqrt (1 + (y / x)\<^sup>2)"
proof -
  have "x\<^sup>2 + y\<^sup>2 = x\<^sup>2 * (1 + (y / x)\<^sup>2)"
    using assms by (simp add: field_simps power2_eq_square)
  then have "sqrt (x\<^sup>2 + y\<^sup>2) = sqrt (x\<^sup>2) * sqrt (1 + (y / x)\<^sup>2)"
    by (simp add: real_sqrt_mult)
  then show ?thesis using assms by simp
qed

lemma sqrt_factor_neg:
  fixes x y :: real
  assumes "x < 0"
  shows "sqrt (x\<^sup>2 + y\<^sup>2) = - x * sqrt (1 + (y / x)\<^sup>2)"
proof -
  have "x\<^sup>2 + y\<^sup>2 = x\<^sup>2 * (1 + (y / x)\<^sup>2)"
    using assms by (simp add: field_simps power2_eq_square)
  then have "sqrt (x\<^sup>2 + y\<^sup>2) = sqrt (x\<^sup>2) * sqrt (1 + (y / x)\<^sup>2)"
    by (simp add: real_sqrt_mult)
  then show ?thesis using assms by simp
qed

lemma sqrt_one_plus_pos: "0 < sqrt (1 + (t::real)\<^sup>2)"
  by (simp add: add_pos_nonneg)

text \<open>Polar form and back is the identity on the plane.\<close>

lemma polar_cos: "sqrt (x\<^sup>2 + y\<^sup>2) * cos (arctan2 y x) = x"
proof -
  consider "0 < x" | "x < 0" "0 \<le> y" | "x < 0" "y < 0"
    | "x = 0" "0 < y" | "x = 0" "y < 0" | "x = 0" "y = 0"
    by linarith
  then show ?thesis
  proof cases
    case 1
    then show ?thesis
      using sqrt_one_plus_pos [of "y / x"]
      by (simp add: arctan2_def cos_arctan sqrt_factor_pos)
  next
    case 2
    then show ?thesis
      using sqrt_one_plus_pos [of "y / x"]
      by (simp add: arctan2_def cos_arctan sqrt_factor_neg)
  next
    case 3
    then show ?thesis
      using sqrt_one_plus_pos [of "y / x"]
      by (simp add: arctan2_def cos_arctan sqrt_factor_neg)
  qed (simp_all add: arctan2_def)
qed

lemma polar_sin: "sqrt (x\<^sup>2 + y\<^sup>2) * sin (arctan2 y x) = y"
proof -
  consider "0 < x" | "x < 0" "0 \<le> y" | "x < 0" "y < 0"
    | "x = 0" "0 < y" | "x = 0" "y < 0" | "x = 0" "y = 0"
    by linarith
  then show ?thesis
  proof cases
    case 1
    then show ?thesis
      using sqrt_one_plus_pos [of "y / x"]
      by (simp add: arctan2_def sin_arctan sqrt_factor_pos)
  next
    case 2
    then show ?thesis
      using sqrt_one_plus_pos [of "y / x"]
      by (simp add: arctan2_def sin_arctan sqrt_factor_neg)
  next
    case 3
    then show ?thesis
      using sqrt_one_plus_pos [of "y / x"]
      by (simp add: arctan2_def sin_arctan sqrt_factor_neg)
  qed (simp_all add: arctan2_def)
qed

text \<open>A half turn sends a centred corner to its opposite.\<close>

lemma rotate_corner_180:
  "rotate_corner half_w half_h (deg2rad 180) (x, y) = (half_w - x, half_h - y)"
proof -
  have a: "deg2rad 180 = pi" by (simp add: deg2rad_def)
  have c: "sqrt (x\<^sup>2 + y\<^sup>2) * cos (arctan2 y x + pi) = - x"
    using polar_cos [of x y] by simp
  have s: "sqrt (x\<^sup>2 + y\<^sup>2) * sin (arctan2 y x + pi) = - y"
    using polar_sin [of x y] by simp
  show ?thesis
    unfolding rotate_corner_def a using c s by (simp add: Let_def)
qed

text \<open>
  C5 (the code diverges). For a frame of width 200 and height 100, the box
  \<open>(10, 10, 50, 50)\<close> and the angle 180, the rotation about the frame centre
  \<open>(100, 50)\<close> that the specification describes gives \<open>(150, 50, 190, 90)\<close>.
  \<open>_rotate_bbox\<close> unpacks \<open>Image.size\<close>, which is \<open>(width, height)\<close>, as
  \<open>frame_h, frame_w\<close>, rotates about \<open>(50, 100)\<close> and gives \<open>(50, 150, 90, 190)\<close>.
  The values are those of exact real arithmetic; floating point moves each by less
  than one pixel.
\<close>

theorem C5_rotation_centre_swapped:
  "RandomRotateClip_call \<lparr>angles = [0, 90, 180, 270]\<rparr> 2
     (ListClip [PILImage 200 100 3]) (BoxArray [[(10, 10, 50, 50)]])
     = Inr (ListClip [PILImage 200 100 3], Some (BoxArray [[(50, 150, 90, 190)]]))
   \<and> spec_rotate_box (10, 10, 50, 50) (200, 100) 180 = (150, 50, 190, 90)"
  by (simp add: RandomRotateClip_call_def random_choice_def first_frame_size_def
        rotate_bbox_def spec_rotate_box_def rotate_corner_180 Let_def min4_def max4_def
        py_int_def)

section \<open>The frame adapter\<close>

text \<open>
  C6 (the code diverges). One colour frame of width 5 and height 4 with 3 bands is
  stacked to the shape \<open>[1, 4, 5, 3]\<close>, that is \<open>[frame, height, width, channel]\<close>,
  where the claim and the class's docstring put the channel axis before the height:
  \<open>[1, 3, 4, 5]\<close>. The element type is floating point, and a one-band frame is stacked
  to \<open>[frame, height, width]\<close>, as claimed.
\<close>

theorem C6_channel_axis_last:
  "ToTensorClip_call (ListClip [PILImage 5 4 3]) (BoxList [])
     = Inr (\<lparr>tensor_shape = [1, 4, 5, 3], tensor_dtype = Float32\<rparr>, None)
   \<and> ToTensorClip_call (ListClip [PILImage 5 4 1]) (BoxList [])
     = Inr (\<lparr>tensor_shape = [1, 4, 5], tensor_dtype = Float32\<rparr>, None)"
  by (simp add: ToTensorClip_call_def format_clip_numpy_def stack_shapes_def)

text \<open>
  C7 (as stated, refuted). A list whose first element is neither an image nor a
  numeric array is returned as it is, with no failure; and a clip of two-dimensional
  numeric arrays raises TypeError (\<open>len\<close> of the integer \<open>frame.size\<close>) instead of being
  converted.
\<close>

theorem C7_format_clip_counterexample:
  "\<not> classified OtherObj
   \<and> format_clip (ListClip [OtherObj]) = Inr (ListClip [OtherObj])
   \<and> format_clip (ListClip [NdArray [4, 5]]) = Inl TypeError"
  by (simp add: format_clip_def)

text \<open>
  C7 (amended). \<open>_format_clip\<close> raises its AssertionError exactly when the clip object
  itself is neither a list nor a numeric array; it does not classify the first element:
  a list whose first element is not a numeric array is returned unchanged, whatever its
  elements are.
\<close>

theorem format_clip_passes_lists_through:
  "(format_clip clip = Inl AssertionError \<longleftrightarrow> clip = NotAClip)
   \<and> (\<not> is_ndarray first \<longrightarrow>
        format_clip (ListClip (first # rest)) = Inr (ListClip (first # rest)))"
proof -
  have ff: "format_frames fs acc \<noteq> Inl AssertionError" for fs acc
  proof (induction fs arbitrary: acc)
    case Nil
    then show ?case by simp
  next
    case (Cons f fs)
    then show ?case
      by (cases f) (auto split: sum.splits)
  qed
  have "format_clip clip = Inl AssertionError \<longleftrightarrow> clip = NotAClip"
    using ff [of "frames_of clip" "[]"]
    by (auto simp: format_clip_def split: list.splits sum.splits)
  then show ?thesis by (simp add: format_clip_def)
qed

theorem format_clip_passes_lists_through_witness:
  "format_clip NotAClip = Inl AssertionError
   \<and> \<not> is_ndarray OtherObj
   \<and> format_clip (ListClip [OtherObj, PILImage 3 2 1]) = Inr (ListClip [OtherObj, PILImage 3 2 1])"
  using format_clip_passes_lists_through [of NotAClip OtherObj "[PILImage 3 2 1]"]
  by simp

section \<open>Length of the clip\<close>

lemma map_frames_length:
  "map_frames op fs = Inr gs \<Longrightarrow> length gs = length fs"
  by (induction fs arbitrary: gs) (auto split: sum.splits)

lemma format_frames_length:
  "format_frames fs acc = Inr out \<Longrightarrow> length out = length acc + length fs"
proof (induction fs arbitrary: acc)
  case Nil
  then show ?case by simp
next
  case (Cons f fs)
  then show ?case
    by (cases f) (auto split: sum.splits if_splits)
qed

lemma format_clip_length:
  assumes "format_clip clip = Inr clip'"
  shows "clip_len clip' = clip_len clip"
proof (cases "frames_of clip")
  case Nil
  with assms show ?thesis
    by (simp add: format_clip_def split: if_splits)
next
  case (Cons first rest)
  show ?thesis
  proof (cases "is_ndarray first")
    case True
    with assms Cons obtain out where
      "format_frames (frames_of clip) [] = Inr out" and "clip' = ListClip out"
      by (auto simp: format_clip_def split: if_splits sum.splits)
    then show ?thesis
      using format_frames_length [of "frames_of clip" "[]" out] by (simp add: clip_len_def)
  next
    case False
    with assms Cons show ?thesis
      by (simp add: format_clip_def split: if_splits)
  qed
qed

lemma frame_loop_length:
  "frame_loop img_op box_op bbox fs i oc ob = Inr (oc', ob')
   \<Longrightarrow> length oc' = length oc + length fs"
proof (induction fs arbitrary: i oc ob)
  case Nil
  then show ?case by simp
next
  case (Cons f fs)
  from Cons.prems obtain g where g: "img_op f = Inr g"
    by (auto split: sum.splits)
  show ?case
  proof (cases "supplied bbox")
    case True
    with Cons.prems g obtain tb where
      "frame_loop img_op box_op bbox fs (Suc i) (oc @ [g]) (ob @ [tb]) = Inr (oc', ob')"
      by (auto split: sum.splits)
    from Cons.IH [OF this] show ?thesis by simp
  next
    case False
    with Cons.prems g have
      "frame_loop img_op box_op bbox fs (Suc i) (oc @ [g]) ob = Inr (oc', ob')"
      by simp
    from Cons.IH [OF this] show ?thesis by simp
  qed
qed

lemma unit_call_length:
  assumes "unit_call img_op box_op clip bbox = Inr (clip', ob)"
  shows "clip_len clip' = clip_len clip"
proof -
  from assms obtain c1 oc obx where
    f: "format_clip clip = Inr c1" and
    l: "frame_loop img_op box_op bbox (frames_of c1) 0 [] [] = Inr (oc, obx)" and
    c: "clip' = ListClip oc"
    by (auto simp: unit_call_def split: sum.splits prod.splits)
  from frame_loop_length [OF l] c have "clip_len clip' = clip_len c1"
    by (simp add: clip_len_def)
  with format_clip_length [OF f] show ?thesis by simp
qed

lemma RandomCropClip_call_length:
  assumes "snd (RandomCropClip_call self dx dy clip bbox) = Inr (clip', ob)"
  shows "clip_len clip' = clip_len clip"
proof -
  from assms obtain c1 w where
    f: "format_clip clip = Inr c1" and
    r: "CropClip_call w c1 bbox = Inr (clip', ob)"
    by (auto simp: RandomCropClip_call_def Let_def
          split: sum.splits prod.splits option.splits)
  from r have "clip_len clip' = clip_len c1"
    unfolding CropClip_call_def by (rule unit_call_length)
  with format_clip_length [OF f] show ?thesis by simp
qed

lemma CenterCropClip_call_length:
  assumes "snd (CenterCropClip_call self clip bbox) = Inr (clip', ob)"
  shows "clip_len clip' = clip_len clip"
proof -
  from assms obtain c1 w where
    f: "format_clip clip = Inr c1" and
    r: "CropClip_call w c1 bbox = Inr (clip', ob)"
    by (auto simp: CenterCropClip_call_def Let_def split: sum.splits prod.splits)
  from r have "clip_len clip' = clip_len c1"
    unfolding CropClip_call_def by (rule unit_call_length)
  with format_clip_length [OF f] show ?thesis by simp
qed

lemma flip_data_length:
  assumes "flip_data self clip bbox = Inr (clip', bbox')"
  shows "clip_len clip' = clip_len clip"
proof -
  from assms obtain oc where
    "map_frames pil_transpose (frames_of clip) = Inr oc" and "clip' = ListClip oc"
    by (auto simp: flip_data_def split: if_splits sum.splits)
  then show ?thesis
    using map_frames_length [of pil_transpose "frames_of clip" oc] by (simp add: clip_len_def)
qed

lemma RandomFlipClip_call_length:
  assumes "RandomFlipClip_call self flip_prob clip bbox = Inr (clip', ob)"
  shows "clip_len clip' = clip_len clip"
proof -
  from assms obtain c1 where f: "format_clip clip = Inr c1"
    by (auto simp: RandomFlipClip_call_def split: sum.splits)
  show ?thesis
  proof (cases "random_flip self flip_prob")
    case True
    with assms f obtain b1 where "flip_data self c1 bbox = Inr (clip', b1)"
      by (auto simp: RandomFlipClip_call_def split: sum.splits)
    from flip_data_length [OF this] format_clip_length [OF f] show ?thesis by simp
  next
    case False
    with assms f have "clip' = c1"
      by (simp add: RandomFlipClip_call_def)
    with format_clip_length [OF f] show ?thesis by simp
  qed
qed

lemma RandomRotateClip_call_length:
  assumes "RandomRotateClip_call self draw clip bbox = Inr (clip', ob)"
  shows "clip_len clip' = clip_len clip"
proof -
  from assms obtain angle oc where
    "map_frames (pil_rotate angle) (frames_of clip) = Inr oc" and "clip' = ListClip oc"
    by (auto simp: RandomRotateClip_call_def split: sum.splits if_splits)
  then show ?thesis
    using map_frames_length [of "pil_rotate angle" "frames_of clip" oc]
    by (simp add: clip_len_def)
qed

lemma apply_unit_length:
  assumes "apply_unit u d clip bbox = Inr (clip', ob)"
  shows "clip_len clip' = clip_len clip"
proof (cases u)
  case (Resize r)
  with assms show ?thesis
    by (simp add: ResizeClip_call_def unit_call_length)
next
  case (Crop c)
  with assms show ?thesis
    by (simp add: CropClip_call_def unit_call_length)
next
  case (RandomCrop rc)
  with assms show ?thesis
    by (simp add: RandomCropClip_call_length)
next
  case (CenterCrop cc)
  with assms show ?thesis
    by (simp add: CenterCropClip_call_length)
next
  case (RandomFlip rf)
  with assms show ?thesis
    by (simp add: RandomFlipClip_call_length)
next
  case (RandomRotate rr)
  with assms show ?thesis
    by (simp add: RandomRotateClip_call_length)
qed

lemma apply_sequence_length:
  "apply_sequence us clip bbox = Inr (clip', ob) \<Longrightarrow> clip_len clip' = clip_len clip"
proof (induction us arbitrary: clip bbox)
  case Nil
  then show ?case by simp
next
  case (Cons ud us)
  obtain u d where ud: "ud = (u, d)" by (cases ud)
  from Cons.prems ud obtain c1 b1 where
    s: "apply_unit u d clip bbox = Inr (c1, b1)" and
    r: "apply_sequence us c1 (case b1 of None \<Rightarrow> BoxList [] | Some b \<Rightarrow> b) = Inr (clip', ob)"
    by (auto split: sum.splits)
  from Cons.IH [OF r] apply_unit_length [OF s] show ?case by simp
qed

text \<open>
  C8. Whenever one of the units Resize, Crop, RandomCrop, CenterCrop, RandomFlip and
  RandomRotate returns, for any clip, any boxes and any random draws, the clip it
  returns has as many frames as the clip it was given; and so has the clip returned by
  any sequence of such units.
\<close>

theorem pipeline_length_invariance:
  "(apply_unit u d clip bbox = Inr (clip1, bbox1) \<longrightarrow> clip_len clip1 = clip_len clip)
   \<and> (apply_sequence us clip bbox = Inr (clip2, bbox2) \<longrightarrow> clip_len clip2 = clip_len clip)"
  using apply_unit_length apply_sequence_length by blast

lemma example_run:
  "apply_sequence example_units (ListClip [PILImage 100 100 3, PILImage 100 100 3, PILImage 100 100 3, PILImage 100 100 3]) (BoxList [])
     = Inr (ListClip [PILImage 10 10 3, PILImage 10 10 3, PILImage 10 10 3, PILImage 10 10 3], None)"
  by (simp add: example_units_def example_draws_def ResizeClip_call_def CropClip_call_def
        CenterCropClip_call_def calculate_center_def update_bbox_def RandomCropClip_call_def
        RandomCropClip_init_def update_random_sample_def randint_def get_random_sample_def
        RandomFlipClip_call_def random_flip_def flip_data_def RandomRotateClip_call_def
        random_choice_def unit_eval)

lemma example_unit_run:
  "apply_unit (Resize \<lparr>size_h = 50, size_w = 50\<rparr>) example_draws (ListClip [PILImage 100 100 3, PILImage 100 100 3, PILImage 100 100 3, PILImage 100 100 3]) (BoxList [])
     = Inr (ListClip [PILImage 50 50 3, PILImage 50 50 3, PILImage 50 50 3, PILImage 50 50 3], None)"
  by (simp add: ResizeClip_call_def unit_eval)

theorem pipeline_length_invariance_witness:
  "apply_unit (Resize \<lparr>size_h = 50, size_w = 50\<rparr>) example_draws (ListClip [PILImage 100 100 3, PILImage 100 100 3, PILImage 100 100 3, PILImage 100 100 3]) (BoxList [])
     = Inr (ListClip [PILImage 50 50 3, PILImage 50 50 3, PILImage 50 50 3, PILImage 50 50 3], None)
   \<and> apply_sequence example_units (ListClip [PILImage 100 100 3, PILImage 100 100 3, PILImage 100 100 3, PILImage 100 100 3]) (BoxList [])
     = Inr (ListClip [PILImage 10 10 3, PILImage 10 10 3, PILImage 10 10 3, PILImage 10 10 3], None)
   \<and> clip_len (ListClip [PILImage 50 50 3, PILImage 50 50 3, PILImage 50 50 3, PILImage 50 50 3]) = clip_len (ListClip [PILImage 100 100 3, PILImage 100 100 3, PILImage 100 100 3, PILImage 100 100 3])
   \<and> clip_len (ListClip [PILImage 10 10 3, PILImage 10 10 3, PILImage 10 10 3, PILImage 10 10 3]) = clip_len (ListClip [PILImage 100 100 3, PILImage 100 100 3, PILImage 100 100 3, PILImage 100 100 3])"
  using example_run example_unit_run
    pipeline_length_invariance [of "Resize \<lparr>size_h = 50, size_w = 50\<rparr>" example_draws
      "ListClip [PILImage 100 100 3, PILImage 100 100 3, PILImage 100 100 3, PILImage 100 100 3]" "BoxList []" "ListClip [PILImage 50 50 3, PILImage 50 50 3, PILImage 50 50 3, PILImage 50 50 3]" None example_units "ListClip [PILImage 10 10 3, PILImage 10 10 3, PILImage 10 10 3, PILImage 10 10 3]" None]
  by blast

section \<open>The random crop window\<close>

lemma frame_loop_clip:
  "frame_loop img_op box_op bbox fs i oc ob = Inr (oc', ob')
   \<Longrightarrow> \<exists>gs. map_frames img_op fs = Inr gs \<and> oc' = oc @ gs"
proof (induction fs arbitrary: i oc ob)
  case Nil
  then show ?case by simp
next
  case (Cons f fs)
  from Cons.prems obtain g where g: "img_op f = Inr g"
    by (auto split: sum.splits)
  from Cons.prems g obtain ob1 where
    "frame_loop img_op box_op bbox fs (Suc i) (oc @ [g]) ob1 = Inr (oc', ob')"
    by (auto split: sum.splits if_splits)
  from Cons.IH [OF this] obtain gs where
    "map_frames img_op fs = Inr gs" and "oc' = (oc @ [g]) @ gs"
    by blast
  with g show ?case by simp
qed

lemma update_bbox_literal:
  "update_bbox r x0 x1 y0 y1 = \<lparr>bbox_xmin = x0, bbox_xmax = x1, bbox_ymin = y0, bbox_ymax = y1\<rparr>"
  by (cases r) (simp add: update_bbox_def)

lemma CropClip_call_frames:
  assumes "CropClip_call window (ListClip (PILImage w h b # rest)) bbox = Inr (out, ob)"
  shows "map_frames
           (pil_crop (bbox_xmin window, bbox_ymin window, bbox_xmax window, bbox_ymax window))
           (PILImage w h b # rest) = Inr (frames_of out)"
proof -
  from assms obtain oc obx where
    l: "frame_loop
          (pil_crop (bbox_xmin window, bbox_ymin window, bbox_xmax window, bbox_ymax window))
          (crop_box_op window) bbox (PILImage w h b # rest) 0 [] [] = Inr (oc, obx)"
    and o: "out = ListClip oc"
    by (auto simp: CropClip_call_def unit_call_def format_clip_def split: sum.splits)
  from frame_loop_clip [OF l] o show ?thesis by auto
qed

text \<open>
  C9. On a clip whose first frame is an image of width \<open>w\<close> and height \<open>h\<close>: when
  \<open>crop_w < w\<close> and \<open>crop_h < h\<close>, the sampled window starts at \<open>0 \<le> xmin\<close>,
  \<open>0 \<le> ymin\<close>, has \<open>xmax = xmin + crop_w \<le> w\<close> and \<open>ymax = ymin + crop_h \<le> h\<close>, is
  stored in the unit and in its inner Crop unit, and the call is the call of that Crop
  unit, which crops every frame by this one window. When \<open>crop_w \<ge> w\<close> or
  \<open>crop_h \<ge> h\<close> the call fails with the generator's ValueError; no check of the crop
  size precedes the draw.
\<close>

theorem RandomCrop_window:
  "(crop_w self < w \<and> crop_h self < h \<longrightarrow>
      (let clip = ListClip (PILImage w h b # rest);
           result = RandomCropClip_call self dx dy clip bbox;
           x0 = int dx mod (w - crop_w self);
           y0 = int dy mod (h - crop_h self);
           window = \<lparr>bbox_xmin = x0, bbox_xmax = x0 + crop_w self,
                     bbox_ymin = y0, bbox_ymax = y0 + crop_h self\<rparr>
       in 0 \<le> x0 \<and> x0 + crop_w self \<le> w \<and> 0 \<le> y0 \<and> y0 + crop_h self \<le> h
          \<and> get_random_sample (fst result)
              = (Some x0, Some (x0 + crop_w self), Some y0, Some (y0 + crop_h self))
          \<and> crop_transform (fst result) = window
          \<and> snd result = CropClip_call window clip bbox
          \<and> (\<forall>out ob. snd result = Inr (out, ob) \<longrightarrow>
                map_frames (pil_crop (x0, y0, x0 + crop_w self, y0 + crop_h self)) (frames_of clip)
                  = Inr (frames_of out))))
   \<and> (w \<le> crop_w self \<or> h \<le> crop_h self \<longrightarrow>
        snd (RandomCropClip_call self dx dy (ListClip (PILImage w h b # rest)) bbox)
          = Inl ValueError)"
proof (intro conjI impI)
  assume fit: "crop_w self < w \<and> crop_h self < h"
  define x0 where "x0 = int dx mod (w - crop_w self)"
  define y0 where "y0 = int dy mod (h - crop_h self)"
  define window where
    "window = \<lparr>bbox_xmin = x0, bbox_xmax = x0 + crop_w self,
               bbox_ymin = y0, bbox_ymax = y0 + crop_h self\<rparr>"
  define clip where "clip = ListClip (PILImage w h b # rest)"
  define result where "result = RandomCropClip_call self dx dy clip bbox"
  have x: "0 \<le> x0" "x0 < w - crop_w self"
    using fit by (simp_all add: x0_def)
  have y: "0 \<le> y0" "y0 < h - crop_h self"
    using fit by (simp_all add: y0_def)
  have upd: "update_random_sample self dx dy w h
      = (self\<lparr>self_xmin := Some x0, self_xmax := Some (x0 + crop_w self),
               self_ymin := Some y0, self_ymax := Some (y0 + crop_h self)\<rparr>, None)"
    using fit by (simp add: update_random_sample_def randint_def x0_def y0_def Let_def)
  have res: "result =
      (self\<lparr>self_xmin := Some x0, self_xmax := Some (x0 + crop_w self),
             self_ymin := Some y0, self_ymax := Some (y0 + crop_h self),
             crop_transform := window\<rparr>,
       CropClip_call window clip bbox)"
    by (simp add: result_def clip_def RandomCropClip_call_def format_clip_def
          first_frame_size_def upd get_random_sample_def update_bbox_literal window_def Let_def)
  have frames: "\<forall>out ob. snd result = Inr (out, ob) \<longrightarrow>
      map_frames (pil_crop (x0, y0, x0 + crop_w self, y0 + crop_h self)) (frames_of clip)
        = Inr (frames_of out)"
  proof (intro allI impI)
    fix out ob
    assume "snd result = Inr (out, ob)"
    then have "CropClip_call window (ListClip (PILImage w h b # rest)) bbox = Inr (out, ob)"
      by (simp add: res clip_def)
    from CropClip_call_frames [OF this] show
      "map_frames (pil_crop (x0, y0, x0 + crop_w self, y0 + crop_h self)) (frames_of clip)
        = Inr (frames_of out)"
      by (simp add: window_def clip_def)
  qed
  have "0 \<le> x0 \<and> x0 + crop_w self \<le> w \<and> 0 \<le> y0 \<and> y0 + crop_h self \<le> h
      \<and> get_random_sample (fst result)
          = (Some x0, Some (x0 + crop_w self), Some y0, Some (y0 + crop_h self))
      \<and> crop_transform (fst result) = window
      \<and> snd result = CropClip_call window clip bbox
      \<and> (\<forall>out ob. snd result = Inr (out, ob) \<longrightarrow>
            map_frames (pil_crop (x0, y0, x0 + crop_w self, y0 + crop_h self)) (frames_of clip)
              = Inr (frames_of out))"
    using x y frames by (simp add: res get_random_sample_def)
  then show "let clip = ListClip (PILImage w h b # rest);
           result = RandomCropClip_call self dx dy clip bbox;
           x0 = int dx mod (w - crop_w self);
           y0 = int dy mod (h - crop_h self);
           window = \<lparr>bbox_xmin = x0, bbox_xmax = x0 + crop_w self,
                     bbox_ymin = y0, bbox_ymax = y0 + crop_h self\<rparr>
       in 0 \<le> x0 \<and> x0 + crop_w self \<le> w \<and> 0 \<le> y0 \<and> y0 + crop_h self \<le> h
          \<and> get_random_sample (fst result)
              = (Some x0, Some (x0 + crop_w self), Some y0, Some (y0 + crop_h self))
          \<and> crop_transform (fst result) = window
          \<and> snd result = CropClip_call window clip bbox
          \<and> (\<forall>out ob. snd result = Inr (out, ob) \<longrightarrow>
                map_frames (pil_crop (x0, y0, x0 + crop_w self, y0 + crop_h self)) (frames_of clip)
                  = Inr (frames_of out))"
    unfolding Let_def x0_def y0_def window_def clip_def result_def by blast
next
  assume big: "w \<le> crop_w self \<or> h \<le> crop_h self"
  have "snd (update_random_sample self dx dy w h) = Some ValueError"
    using big by (auto simp: update_random_sample_def randint_def Let_def)
  then obtain s1 where "update_random_sample self dx dy w h = (s1, Some ValueError)"
    by (cases "update_random_sample self dx dy w h") auto
  then show "snd (RandomCropClip_call self dx dy (ListClip (PILImage w h b # rest)) bbox)
      = Inl ValueError"
    by (simp add: RandomCropClip_call_def format_clip_def first_frame_size_def)
qed

theorem RandomCrop_window_witness:
  "get_random_sample
     (fst (RandomCropClip_call (RandomCropClip_init 20 20) 47 3
             (ListClip [PILImage 50 50 3, PILImage 50 50 3]) (BoxList [])))
     = (Some 17, Some 37, Some 3, Some 23)
   \<and> snd (RandomCropClip_call (RandomCropClip_init 20 20) 47 3
             (ListClip [PILImage 50 50 3, PILImage 50 50 3]) (BoxList []))
     = Inr (ListClip [PILImage 20 20 3, PILImage 20 20 3], None)
   \<and> snd (RandomCropClip_call (RandomCropClip_init 50 20) 47 3
             (ListClip [PILImage 50 50 3, PILImage 50 50 3]) (BoxList []))
     = Inl ValueError"
proof -
  have fit: "crop_w (RandomCropClip_init 20 20) < 50 \<and> crop_h (RandomCropClip_init 20 20) < 50"
    by (simp add: RandomCropClip_init_def)
  have cw: "crop_w (RandomCropClip_init 20 20) = 20" "crop_h (RandomCropClip_init 20 20) = 20"
    by (simp_all add: RandomCropClip_init_def)
  have big: "50 \<le> crop_w (RandomCropClip_init 50 20) \<or> 50 \<le> crop_h (RandomCropClip_init 50 20)"
    by (simp add: RandomCropClip_init_def)
  note inside = RandomCrop_window [where self = "RandomCropClip_init 20 20" and w = 50
      and h = 50 and b = 3 and rest = "[PILImage 50 50 3]" and dx = 47 and dy = 3
      and bbox = "BoxList []", THEN conjunct1, rule_format, OF fit, unfolded Let_def cw]
  note outside = RandomCrop_window [where self = "RandomCropClip_init 50 20" and w = 50
      and h = 50 and b = 3 and rest = "[PILImage 50 50 3]" and dx = 47 and dy = 3
      and bbox = "BoxList []", THEN conjunct2, rule_format, OF big]
  have crop: "CropClip_call \<lparr>bbox_xmin = 17, bbox_xmax = 37, bbox_ymin = 3, bbox_ymax = 23\<rparr>
      (ListClip [PILImage 50 50 3, PILImage 50 50 3]) (BoxList [])
      = Inr (ListClip [PILImage 20 20 3, PILImage 20 20 3], None)"
    by (simp add: CropClip_call_def unit_eval)
  from inside have sample:
    "get_random_sample
       (fst (RandomCropClip_call (RandomCropClip_init 20 20) 47 3
               (ListClip [PILImage 50 50 3, PILImage 50 50 3]) (BoxList [])))
       = (Some 17, Some 37, Some 3, Some 23)
     \<and> snd (RandomCropClip_call (RandomCropClip_init 20 20) 47 3
               (ListClip [PILImage 50 50 3, PILImage 50 50 3]) (BoxList []))
       = CropClip_call \<lparr>bbox_xmin = 17, bbox_xmax = 37, bbox_ymin = 3, bbox_ymax = 23\<rparr>
           (ListClip [PILImage 50 50 3, PILImage 50 50 3]) (BoxList [])"
    by simp
  from sample outside show ?thesis
    by (simp only: crop simp_thms)
qed

section \<open>The slot loop of Resize and Crop\<close>

text \<open>
  With a box primitive that never raises, the slot loop over a box array succeeds when
  every index it visits is a slot of the frame, and then it leaves the other slots of
  \<open>temp_bbox\<close> as they were; as soon as one index is no slot, it raises IndexError.
\<close>

lemma slot_loop_in_range:
  assumes "frame_ind < length rows"
    and "\<forall>j \<in> set idxs. j < length (rows ! frame_ind)"
    and "\<forall>b. \<exists>b'. proc b = Inr b'"
  shows "\<exists>t. slot_loop proc (BoxArray rows) frame_ind idxs temp = Inr t
           \<and> length t = length temp \<and> (\<forall>j. j \<notin> set idxs \<longrightarrow> t ! j = temp ! j)"
  using assms(2)
proof (induction idxs arbitrary: temp)
  case Nil
  then show ?case by simp
next
  case (Cons i idxs)
  from assms(3) obtain b' where b': "proc (rows ! frame_ind ! i) = Inr b'"
    by blast
  from Cons.prems have "\<forall>j \<in> set idxs. j < length (rows ! frame_ind)"
    by simp
  from Cons.IH [OF this, of "temp[i := b']"] obtain t where
    t: "slot_loop proc (BoxArray rows) frame_ind idxs (temp[i := b']) = Inr t"
      "length t = length temp" "\<forall>j. j \<notin> set idxs \<longrightarrow> t ! j = (temp[i := b']) ! j"
    by auto
  from Cons.prems assms(1) b' t(1) have
    "slot_loop proc (BoxArray rows) frame_ind (i # idxs) temp = Inr t"
    by simp
  moreover from t(3) have "\<forall>j. j \<notin> set (i # idxs) \<longrightarrow> t ! j = temp ! j"
    by simp
  ultimately show ?case using t(2) by blast
qed

lemma slot_loop_out_of_range:
  assumes "\<exists>j \<in> set idxs. \<not> j < length (rows ! frame_ind)"
    and "\<forall>b. \<exists>b'. proc b = Inr b'"
  shows "slot_loop proc (BoxArray rows) frame_ind idxs temp = Inl IndexError"
  using assms(1)
proof (induction idxs arbitrary: temp)
  case Nil
  then show ?case by simp
next
  case (Cons i idxs)
  show ?case
  proof (cases "frame_ind < length rows \<and> i < length (rows ! frame_ind)")
    case False
    then show ?thesis by auto
  next
    case True
    from assms(2) obtain b' where b': "proc (rows ! frame_ind ! i) = Inr b'"
      by blast
    from True Cons.prems have "\<exists>j \<in> set idxs. \<not> j < length (rows ! frame_ind)"
      by auto
    from Cons.IH [OF this] True b' show ?thesis by simp
  qed
qed

text \<open>
  The frame loop on \<open>n\<close> frames from index \<open>i\<close>, with a box array of \<open>f\<close> frames of
  \<open>s\<close> slots each: it returns exactly when \<open>i + n \<le> f \<le> s\<close>; the rows it returns
  have \<open>s\<close> slots, of which those from \<open>f\<close> on are still zero.
\<close>

lemma frame_loop_box_array:
  assumes ops: "\<forall>fr \<in> set fs. (\<exists>g. img_op fr = Inr g) \<and> (\<forall>b. \<exists>b'. box_op fr b = Inr b')"
    and rect: "\<forall>row \<in> set rows. length row = s"
    and ne: "fs \<noteq> []"
  shows "(i + length fs \<le> length rows \<and> length rows \<le> s \<longrightarrow>
           (\<exists>oc' new. frame_loop img_op box_op (BoxArray rows) fs i oc ob = Inr (oc', ob @ new)
              \<and> length new = length fs
              \<and> (\<forall>row' \<in> set new. length row' = s
                    \<and> (\<forall>j. length rows \<le> j \<and> j < s \<longrightarrow> row' ! j = zero_box))))
       \<and> (\<not> (i + length fs \<le> length rows \<and> length rows \<le> s) \<longrightarrow>
           frame_loop img_op box_op (BoxArray rows) fs i oc ob = Inl IndexError)"
  using ops ne
proof (induction fs arbitrary: i oc ob)
  case Nil
  then show ?case by simp
next
  case (Cons fr fs)
  from Cons.prems obtain g where g: "img_op fr = Inr g"
    by auto
  from Cons.prems have tot: "\<forall>b. \<exists>b'. box_op fr b = Inr b'"
    by auto
  show ?case
  proof (cases "i < length rows")
    case False
    then show ?thesis
      using g by (simp add: frame_row_def)
  next
    case inb: True
    then have len: "length (rows ! i) = s"
      using rect by simp
    show ?thesis
    proof (cases "length rows \<le> s")
      case False
      then have "\<exists>j \<in> set [0 ..< length rows]. \<not> j < length (rows ! i)"
        using len inb by (intro bexI [of _ s]) auto
      from slot_loop_out_of_range [OF this tot] show ?thesis
        using g inb False by (simp add: frame_row_def)
    next
      case fs_le: True
      then have "\<forall>j \<in> set [0 ..< length rows]. j < length (rows ! i)"
        using len by auto
      from slot_loop_in_range [OF inb this tot, of "replicate (length (rows ! i)) zero_box"]
      obtain t where
        t: "slot_loop (box_op fr) (BoxArray rows) i [0 ..< length rows]
              (replicate (length (rows ! i)) zero_box) = Inr t"
          "length t = s"
          "\<forall>j. j \<notin> set [0 ..< length rows] \<longrightarrow> t ! j = replicate s zero_box ! j"
        using len by auto
      have tz: "\<forall>j. length rows \<le> j \<and> j < s \<longrightarrow> t ! j = zero_box"
        using t(3) by simp
      have step: "frame_loop img_op box_op (BoxArray rows) (fr # fs) i oc ob
          = frame_loop img_op box_op (BoxArray rows) fs (Suc i) (oc @ [g]) (ob @ [t])"
        using g inb t(1) by (simp add: frame_row_def)
      show ?thesis
      proof (cases "fs = []")
        case True
        then show ?thesis
          using step inb fs_le t(2) tz by simp
      next
        case False
        from Cons.prems have "\<forall>fr \<in> set fs. (\<exists>g. img_op fr = Inr g) \<and> (\<forall>b. \<exists>b'. box_op fr b = Inr b')"
          by simp
        note ih = Cons.IH [OF this False, of "Suc i" "oc @ [g]" "ob @ [t]"]
        show ?thesis
        proof (cases "Suc i + length fs \<le> length rows")
          case True
          with ih fs_le obtain oc' new where
            n: "frame_loop img_op box_op (BoxArray rows) fs (Suc i) (oc @ [g]) (ob @ [t])
                  = Inr (oc', (ob @ [t]) @ new)"
              "length new = length fs"
              "\<forall>row' \<in> set new. length row' = s
                  \<and> (\<forall>j. length rows \<le> j \<and> j < s \<longrightarrow> row' ! j = zero_box)"
            by blast
          have "frame_loop img_op box_op (BoxArray rows) (fr # fs) i oc ob = Inr (oc', ob @ (t # new))"
            using step n(1) by simp
          moreover have "length (t # new) = length (fr # fs)"
            using n(2) by simp
          moreover have "\<forall>row' \<in> set (t # new). length row' = s
              \<and> (\<forall>j. length rows \<le> j \<and> j < s \<longrightarrow> row' ! j = zero_box)"
            using n(3) t(2) tz by simp
          ultimately show ?thesis
            using True fs_le by auto
        next
          case False
          with ih have "frame_loop img_op box_op (BoxArray rows) fs (Suc i) (oc @ [g]) (ob @ [t])
              = Inl IndexError"
            by simp
          then show ?thesis
            using step False by simp
        qed
      qed
    qed
  qed
qed

lemma unit_call_box_array:
  assumes ops: "\<forall>fr \<in> set frames. (\<exists>g. img_op fr = Inr g) \<and> (\<forall>b. \<exists>b'. box_op fr b = Inr b')"
    and rect: "\<forall>row \<in> set rows. length row = s"
    and fmt: "format_clip (ListClip frames) = Inr (ListClip frames)"
  shows "(length frames \<le> length rows \<and> length rows \<le> s \<longrightarrow>
           (\<exists>out ob. unit_call img_op box_op (ListClip frames) (BoxArray rows)
                = Inr (ListClip out, Some (BoxArray ob))
              \<and> length out = length frames \<and> length ob = length frames
              \<and> (\<forall>row' \<in> set ob. length row' = s
                    \<and> (\<forall>j. length rows \<le> j \<and> j < s \<longrightarrow> row' ! j = zero_box))))
       \<and> (\<not> (length frames \<le> length rows \<and> length rows \<le> s) \<longrightarrow>
           unit_call img_op box_op (ListClip frames) (BoxArray rows) = Inl IndexError)"
proof -
  from fmt have ne: "frames \<noteq> []"
    by (auto simp: format_clip_def)
  note fl = frame_loop_box_array [OF ops rect ne, of 0 "[]" "[]"]
  show ?thesis
  proof (intro conjI impI)
    assume ok: "length frames \<le> length rows \<and> length rows \<le> s"
    with fl obtain oc' new where
      n: "frame_loop img_op box_op (BoxArray rows) frames 0 [] [] = Inr (oc', new)"
        "length new = length frames"
        "\<forall>row' \<in> set new. length row' = s
            \<and> (\<forall>j. length rows \<le> j \<and> j < s \<longrightarrow> row' ! j = zero_box)"
      by auto
    from frame_loop_length [OF n(1)] have "length oc' = length frames"
      by simp
    with n fmt show "\<exists>out ob. unit_call img_op box_op (ListClip frames) (BoxArray rows)
                = Inr (ListClip out, Some (BoxArray ob))
              \<and> length out = length frames \<and> length ob = length frames
              \<and> (\<forall>row' \<in> set ob. length row' = s
                    \<and> (\<forall>j. length rows \<le> j \<and> j < s \<longrightarrow> row' ! j = zero_box))"
      by (simp add: unit_call_def)
  next
    assume "\<not> (length frames \<le> length rows \<and> length rows \<le> s)"
    with fl have "frame_loop img_op box_op (BoxArray rows) frames 0 [] [] = Inl IndexError"
      by simp
    with fmt show "unit_call img_op box_op (ListClip frames) (BoxArray rows) = Inl IndexError"
      by (simp add: unit_call_def)
  qed
qed


lemma resize_box_op_total:
  assumes "w \<noteq> 0" and "h \<noteq> 0"
  shows "\<exists>b'. resize_box_op self (PILImage w h bands) b = Inr b'"
  using assms by (cases b) (simp add: resize_box_op_def resize_bbox_def Let_def)

lemma crop_box_op_total: "\<exists>b'. crop_box_op self fr b = Inr b'"
  by (cases b) (simp add: crop_box_op_def del: split_paired_Ex)

lemma format_clip_images:
  assumes "\<forall>fr \<in> set frames. \<exists>w h b. fr = PILImage w h b \<and> 0 < w \<and> 0 < h"
    and "frames \<noteq> []"
  shows "format_clip (ListClip frames) = Inr (ListClip frames)"
proof -
  from assms(2) obtain first rest where fr: "frames = first # rest"
    by (cases frames) auto
  with assms(1) obtain w h b where "first = PILImage w h b"
    by auto
  with fr show ?thesis by (simp add: format_clip_def)
qed

text \<open>Flipping and rotating leave the extent of an image as it is.\<close>

lemma map_frames_transpose:
  assumes "\<forall>fr \<in> set frames. \<exists>w h b. fr = PILImage w h b \<and> 0 < w \<and> 0 < h"
  shows "map_frames pil_transpose frames = Inr frames"
  using assms by (induction frames) auto

lemma map_frames_rotate:
  assumes "\<forall>fr \<in> set frames. \<exists>w h b. fr = PILImage w h b \<and> 0 < w \<and> 0 < h"
  shows "map_frames (pil_rotate angle) frames = Inr frames"
  using assms by (induction frames) auto

lemma flip_rows_h:
  "flip_rows (\<lambda>b sz. Inr (h_flip b sz)) (PILImage w h b # rest) rows
     = Inr (map (\<lambda>row. h_flip row (w, h)) rows)"
  by (induction rows) (simp_all add: first_frame_size_def)

lemma flip_rows_v_no_slot:
  assumes "\<forall>row \<in> set rows. row = []"
  shows "flip_rows v_flip (PILImage w h b # rest) rows = Inr rows"
  using assms by (induction rows) (simp_all add: first_frame_size_def v_flip_def)

lemma rotate_rows_images:
  "rotate_rows (ListClip (PILImage w h b # rest)) angle rows
     = Inr (map (\<lambda>row. rotate_bbox row (w, h) angle) rows)"
  by (induction rows) (simp_all add: first_frame_size_def)

lemma length_h_flip: "length (h_flip row sz) = length row"
  by (simp add: h_flip_def)

lemma length_rotate_bbox: "length (rotate_bbox row sz angle) = length row"
  by (simp add: rotate_bbox_def Let_def)

text \<open>Truncation toward zero is monotone.\<close>

lemma py_int_mono: "x \<le> y \<Longrightarrow> py_int x \<le> py_int y"
proof -
  assume le: "x \<le> y"
  consider "0 \<le> x" | "x < 0" "y < 0" | "x < 0" "0 \<le> y"
    by linarith
  then show ?thesis
  proof cases
    case 1
    with le show ?thesis by (simp add: py_int_def floor_mono)
  next
    case 2
    with le show ?thesis by (simp add: py_int_def ceiling_mono)
  next
    case 3
    then have "\<lceil>x\<rceil> \<le> 0" and "0 \<le> \<lfloor>y\<rfloor>"
      by (simp_all add: ceiling_le_zero)
    then have "\<lceil>x\<rceil> \<le> \<lfloor>y\<rfloor>"
      by (rule order_trans)
    with 3 show ?thesis by (simp add: py_int_def)
  qed
qed

text \<open>The two cropping units that compute their window hand the call to Crop.\<close>

lemma CenterCropClip_call_delegates:
  "snd (CenterCropClip_call cc (ListClip (PILImage w h b # rest)) bbox)
     = CropClip_call
         \<lparr>bbox_xmin = fst (calculate_center cc w h),
          bbox_xmax = fst (snd (calculate_center cc w h)),
          bbox_ymin = fst (snd (snd (calculate_center cc w h))),
          bbox_ymax = snd (snd (snd (calculate_center cc w h)))\<rparr>
         (ListClip (PILImage w h b # rest)) bbox"
  by (simp add: CenterCropClip_call_def format_clip_def first_frame_size_def
        update_bbox_literal Let_def split: prod.splits)

lemma RandomCropClip_call_delegates:
  assumes "crop_w rc < w" and "crop_h rc < h"
  shows "snd (RandomCropClip_call rc dx dy (ListClip (PILImage w h b # rest)) bbox)
     = CropClip_call
         \<lparr>bbox_xmin = int dx mod (w - crop_w rc),
          bbox_xmax = int dx mod (w - crop_w rc) + crop_w rc,
          bbox_ymin = int dy mod (h - crop_h rc),
          bbox_ymax = int dy mod (h - crop_h rc) + crop_h rc\<rparr>
         (ListClip (PILImage w h b # rest)) bbox"
proof -
  have upd: "update_random_sample rc dx dy w h
      = (rc\<lparr>self_xmin := Some (int dx mod (w - crop_w rc)),
             self_xmax := Some (int dx mod (w - crop_w rc) + crop_w rc),
             self_ymin := Some (int dy mod (h - crop_h rc)),
             self_ymax := Some (int dy mod (h - crop_h rc) + crop_h rc)\<rparr>, None)"
    using assms by (simp add: update_random_sample_def randint_def Let_def)
  show ?thesis
    by (simp add: RandomCropClip_call_def format_clip_def first_frame_size_def upd
          get_random_sample_def update_bbox_literal Let_def)
qed

text \<open>
  C10 (as stated, refuted). A clip of one frame with two slots: the number of slots
  differs from the number of frames, and both units return a box output all the same.
  The loop visits slot 0 only and the second slot comes back as the all-zero row.
\<close>

theorem C10_more_slots_counterexample:
  "ResizeClip_call \<lparr>size_h = 50, size_w = 50\<rparr> (ListClip [PILImage 100 100 3])
     (BoxArray [[(10, 10, 50, 50), (20, 20, 60, 60)]])
     = Inr (ListClip [PILImage 50 50 3], Some (BoxArray [[(5, 5, 25, 25), (0, 0, 0, 0)]]))
   \<and> CropClip_call \<lparr>bbox_xmin = 15, bbox_xmax = 35, bbox_ymin = 15, bbox_ymax = 35\<rparr>
       (ListClip [PILImage 50 50 3]) (BoxArray [[(20, 30, 20, 30), (16, 17, 18, 19)]])
     = Inr (ListClip [PILImage 20 20 3], Some (BoxArray [[(20, 30, 20, 30), (0, 0, 0, 0)]]))"
  by (simp add: ResizeClip_call_def resize_box_op_def resize_bbox_def
        CropClip_call_def crop_box_op_def crop_bbox_def unit_eval)

text \<open>
  C10 (amended). No unit checks the shape of the box array against the clip. Take a clip
  of \<open>n \<ge> 1\<close> images of positive extent and a box array of \<open>f\<close> frames with \<open>s\<close> slots
  each, its coordinates of magnitude at most \<open>2^31\<close>. The bounds on sizes below keep the
  images within what PIL allocates.

  Resize, with a target between 1 by 1 and 4096 by 4096, and Crop, with a rectangle of
  width and height between 0 and 4096, run the slot index over \<open>range(len(bbox))\<close>, that
  is over \<open>f\<close>, not over \<open>s\<close>: they return a box output exactly when \<open>n \<le> f \<le> s\<close>; the
  output then has \<open>n\<close> rows of \<open>s\<close> slots, and the slots from \<open>f\<close> on are all-zero rows. In
  every other case, in particular when \<open>s < n\<close>, the call raises IndexError. CenterCrop
  with a crop size between 0 and 4096, and RandomCrop with a crop size of at least 0
  that fits the first frame, are the call of Crop with the window they compute.

  RandomFlip, when it does not flip, returns the box array as it is; when it flips
  horizontally, and when it flips vertically a box array without slots, it returns one
  row for every frame of the box array, with that frame's number of slots. So does
  RandomRotate for every angle it draws. None of them compares \<open>f\<close> with \<open>n\<close>.
\<close>

theorem box_shape_never_validated:
  assumes imgs: "\<forall>fr \<in> set frames. \<exists>w h b. fr = PILImage w h b \<and> 0 < w \<and> 0 < h"
    and first: "frames = PILImage w0 h0 b0 # rest"
    and rect: "\<forall>row \<in> set rows. length row = s"
    and coords: "\<forall>row \<in> set rows. \<forall>(x0, y0, x1, y1) \<in> set row.
        \<bar>x0\<bar> \<le> 2 ^ 31 \<and> \<bar>y0\<bar> \<le> 2 ^ 31 \<and> \<bar>x1\<bar> \<le> 2 ^ 31 \<and> \<bar>y1\<bar> \<le> 2 ^ 31"
  shows
    "(1 \<le> size_w rs \<and> size_w rs \<le> 4096 \<and> 1 \<le> size_h rs \<and> size_h rs \<le> 4096 \<longrightarrow>
        (length frames \<le> length rows \<and> length rows \<le> s \<longrightarrow>
           (\<exists>out ob. ResizeClip_call rs (ListClip frames) (BoxArray rows)
                = Inr (ListClip out, Some (BoxArray ob))
              \<and> length out = length frames \<and> length ob = length frames
              \<and> (\<forall>row' \<in> set ob. length row' = s
                    \<and> (\<forall>j. length rows \<le> j \<and> j < s \<longrightarrow> row' ! j = zero_box))))
      \<and> (\<not> (length frames \<le> length rows \<and> length rows \<le> s) \<longrightarrow>
           ResizeClip_call rs (ListClip frames) (BoxArray rows) = Inl IndexError)
      \<and> (s < length frames \<longrightarrow>
           ResizeClip_call rs (ListClip frames) (BoxArray rows) = Inl IndexError))
   \<and> (\<bar>bbox_xmin cs\<bar> \<le> 2 ^ 30 \<and> \<bar>bbox_ymin cs\<bar> \<le> 2 ^ 30
        \<and> bbox_xmin cs \<le> bbox_xmax cs \<and> bbox_xmax cs \<le> bbox_xmin cs + 4096
        \<and> bbox_ymin cs \<le> bbox_ymax cs \<and> bbox_ymax cs \<le> bbox_ymin cs + 4096 \<longrightarrow>
        (length frames \<le> length rows \<and> length rows \<le> s \<longrightarrow>
           (\<exists>out ob. CropClip_call cs (ListClip frames) (BoxArray rows)
                = Inr (ListClip out, Some (BoxArray ob))
              \<and> length out = length frames \<and> length ob = length frames
              \<and> (\<forall>row' \<in> set ob. length row' = s
                    \<and> (\<forall>j. length rows \<le> j \<and> j < s \<longrightarrow> row' ! j = zero_box))))
      \<and> (\<not> (length frames \<le> length rows \<and> length rows \<le> s) \<longrightarrow>
           CropClip_call cs (ListClip frames) (BoxArray rows) = Inl IndexError)
      \<and> (s < length frames \<longrightarrow>
           CropClip_call cs (ListClip frames) (BoxArray rows) = Inl IndexError))
   \<and> (0 \<le> center_crop_w cc \<and> center_crop_w cc \<le> 4096
        \<and> 0 \<le> center_crop_h cc \<and> center_crop_h cc \<le> 4096 \<longrightarrow>
        (case calculate_center cc w0 h0 of
           (x0, x1, y0, y1) \<Rightarrow>
             snd (CenterCropClip_call cc (ListClip frames) (BoxArray rows))
               = CropClip_call \<lparr>bbox_xmin = x0, bbox_xmax = x1, bbox_ymin = y0, bbox_ymax = y1\<rparr>
                   (ListClip frames) (BoxArray rows)
             \<and> x0 \<le> x1 \<and> y0 \<le> y1))
   \<and> (0 \<le> crop_w rc \<and> crop_w rc < w0 \<and> 0 \<le> crop_h rc \<and> crop_h rc < h0 \<longrightarrow>
        snd (RandomCropClip_call rc dx dy (ListClip frames) (BoxArray rows))
          = CropClip_call
              \<lparr>bbox_xmin = int dx mod (w0 - crop_w rc),
               bbox_xmax = int dx mod (w0 - crop_w rc) + crop_w rc,
               bbox_ymin = int dy mod (h0 - crop_h rc),
               bbox_ymax = int dy mod (h0 - crop_h rc) + crop_h rc\<rparr>
              (ListClip frames) (BoxArray rows))
   \<and> (self_p rf \<le> flip_prob \<longrightarrow>
        RandomFlipClip_call rf flip_prob (ListClip frames) (BoxArray rows)
          = Inr (ListClip frames, Some (BoxArray rows)))
   \<and> (flip_prob < self_p rf \<and> direction rf = ''h'' \<longrightarrow>
        (\<exists>out. RandomFlipClip_call rf flip_prob (ListClip frames) (BoxArray rows)
             = Inr (ListClip frames, Some (BoxList out))
           \<and> map length out = map length rows))
   \<and> (flip_prob < self_p rf \<and> direction rf = ''v'' \<and> s = 0 \<longrightarrow>
        RandomFlipClip_call rf flip_prob (ListClip frames) (BoxArray rows)
          = Inr (ListClip frames, Some (BoxList rows)))
   \<and> (angles rr \<noteq> [] \<longrightarrow>
        (\<exists>out. RandomRotateClip_call rr draw (ListClip frames) (BoxArray rows)
             = Inr (ListClip frames, Some (BoxArray out))
           \<and> map length out = map length rows))"
proof -
  have ne: "frames \<noteq> []"
    using first by simp
  have fmt: "format_clip (ListClip frames) = Inr (ListClip frames)"
    using imgs ne by (rule format_clip_images)
  have small: "s < length frames \<Longrightarrow> \<not> (length frames \<le> length rows \<and> length rows \<le> s)"
    by linarith
  have resize: "(length frames \<le> length rows \<and> length rows \<le> s \<longrightarrow>
           (\<exists>out ob. ResizeClip_call rs (ListClip frames) (BoxArray rows)
                = Inr (ListClip out, Some (BoxArray ob))
              \<and> length out = length frames \<and> length ob = length frames
              \<and> (\<forall>row' \<in> set ob. length row' = s
                    \<and> (\<forall>j. length rows \<le> j \<and> j < s \<longrightarrow> row' ! j = zero_box))))
      \<and> (\<not> (length frames \<le> length rows \<and> length rows \<le> s) \<longrightarrow>
           ResizeClip_call rs (ListClip frames) (BoxArray rows) = Inl IndexError)
      \<and> (s < length frames \<longrightarrow>
           ResizeClip_call rs (ListClip frames) (BoxArray rows) = Inl IndexError)"
    if target: "1 \<le> size_w rs \<and> size_w rs \<le> 4096 \<and> 1 \<le> size_h rs \<and> size_h rs \<le> 4096"
  proof -
    have rops: "\<forall>fr \<in> set frames. (\<exists>g. pil_resize (size_w rs, size_h rs) fr = Inr g)
        \<and> (\<forall>b. \<exists>b'. resize_box_op rs fr b = Inr b')"
    proof
      fix fr
      assume "fr \<in> set frames"
      with imgs obtain w h b where fr: "fr = PILImage w h b" "0 < w" "0 < h"
        by blast
      then have "\<forall>bx. \<exists>b'. resize_box_op rs fr bx = Inr b'"
        using resize_box_op_total [of w h rs b] by simp
      moreover have "\<exists>g. pil_resize (size_w rs, size_h rs) fr = Inr g"
        using fr target by simp
      ultimately show "(\<exists>g. pil_resize (size_w rs, size_h rs) fr = Inr g)
          \<and> (\<forall>b. \<exists>b'. resize_box_op rs fr b = Inr b')"
        by blast
    qed
    note r = unit_call_box_array [OF rops rect fmt, folded ResizeClip_call_def]
    from r small show ?thesis by blast
  qed
  have crop: "(length frames \<le> length rows \<and> length rows \<le> s \<longrightarrow>
           (\<exists>out ob. CropClip_call cs (ListClip frames) (BoxArray rows)
                = Inr (ListClip out, Some (BoxArray ob))
              \<and> length out = length frames \<and> length ob = length frames
              \<and> (\<forall>row' \<in> set ob. length row' = s
                    \<and> (\<forall>j. length rows \<le> j \<and> j < s \<longrightarrow> row' ! j = zero_box))))
      \<and> (\<not> (length frames \<le> length rows \<and> length rows \<le> s) \<longrightarrow>
           CropClip_call cs (ListClip frames) (BoxArray rows) = Inl IndexError)
      \<and> (s < length frames \<longrightarrow>
           CropClip_call cs (ListClip frames) (BoxArray rows) = Inl IndexError)"
    if ordered: "\<bar>bbox_xmin cs\<bar> \<le> 2 ^ 30 \<and> \<bar>bbox_ymin cs\<bar> \<le> 2 ^ 30
        \<and> bbox_xmin cs \<le> bbox_xmax cs \<and> bbox_xmax cs \<le> bbox_xmin cs + 4096
        \<and> bbox_ymin cs \<le> bbox_ymax cs \<and> bbox_ymax cs \<le> bbox_ymin cs + 4096"
  proof -
    have cops: "\<forall>fr \<in> set frames.
        (\<exists>g. pil_crop (bbox_xmin cs, bbox_ymin cs, bbox_xmax cs, bbox_ymax cs) fr = Inr g)
        \<and> (\<forall>b. \<exists>b'. crop_box_op cs fr b = Inr b')"
    proof
      fix fr
      assume "fr \<in> set frames"
      with imgs obtain w h b where fr: "fr = PILImage w h b"
        by blast
      have "\<exists>g. pil_crop (bbox_xmin cs, bbox_ymin cs, bbox_xmax cs, bbox_ymax cs) fr = Inr g"
        using fr ordered by simp
      then show "(\<exists>g. pil_crop (bbox_xmin cs, bbox_ymin cs, bbox_xmax cs, bbox_ymax cs) fr = Inr g)
          \<and> (\<forall>b. \<exists>b'. crop_box_op cs fr b = Inr b')"
        using crop_box_op_total by blast
    qed
    note c = unit_call_box_array [OF cops rect fmt, folded CropClip_call_def]
    from c small show ?thesis by blast
  qed
  have centre: "case calculate_center cc w0 h0 of
         (x0, x1, y0, y1) \<Rightarrow>
           snd (CenterCropClip_call cc (ListClip frames) (BoxArray rows))
             = CropClip_call \<lparr>bbox_xmin = x0, bbox_xmax = x1, bbox_ymin = y0, bbox_ymax = y1\<rparr>
                 (ListClip frames) (BoxArray rows)
           \<and> x0 \<le> x1 \<and> y0 \<le> y1"
    if size: "0 \<le> center_crop_w cc \<and> center_crop_w cc \<le> 4096
        \<and> 0 \<le> center_crop_h cc \<and> center_crop_h cc \<le> 4096"
  proof -
    have x: "0 \<le> center_crop_w cc \<Longrightarrow>
        py_int (real_of_int w0 / 2 - real_of_int (center_crop_w cc) / 2)
          \<le> py_int (real_of_int w0 / 2 + real_of_int (center_crop_w cc) / 2)"
      by (rule py_int_mono) simp
    have y: "0 \<le> center_crop_h cc \<Longrightarrow>
        py_int (real_of_int h0 / 2 - real_of_int (center_crop_h cc) / 2)
          \<le> py_int (real_of_int h0 / 2 + real_of_int (center_crop_h cc) / 2)"
      by (rule py_int_mono) simp
    from CenterCropClip_call_delegates [of cc w0 h0 b0 rest "BoxArray rows"] x y size
    show ?thesis
      by (simp add: first calculate_center_def)
  qed
  have random: "snd (RandomCropClip_call rc dx dy (ListClip frames) (BoxArray rows))
          = CropClip_call
              \<lparr>bbox_xmin = int dx mod (w0 - crop_w rc),
               bbox_xmax = int dx mod (w0 - crop_w rc) + crop_w rc,
               bbox_ymin = int dy mod (h0 - crop_h rc),
               bbox_ymax = int dy mod (h0 - crop_h rc) + crop_h rc\<rparr>
              (ListClip frames) (BoxArray rows)"
    if "0 \<le> crop_w rc \<and> crop_w rc < w0 \<and> 0 \<le> crop_h rc \<and> crop_h rc < h0"
    using that RandomCropClip_call_delegates [of rc w0 h0 dx dy b0 rest "BoxArray rows"]
    by (simp add: first)
  have transposed: "map_frames pil_transpose frames = Inr frames"
    using imgs by (rule map_frames_transpose)
  have noflip: "RandomFlipClip_call rf flip_prob (ListClip frames) (BoxArray rows)
          = Inr (ListClip frames, Some (BoxArray rows))"
    if "self_p rf \<le> flip_prob"
    using that by (simp add: RandomFlipClip_call_def fmt random_flip_def)
  have hflip: "\<exists>out. RandomFlipClip_call rf flip_prob (ListClip frames) (BoxArray rows)
             = Inr (ListClip frames, Some (BoxList out))
           \<and> map length out = map length rows"
    if h: "flip_prob < self_p rf \<and> direction rf = ''h''"
  proof -
    have "flip_rows (\<lambda>b sz. Inr (h_flip b sz)) frames rows
        = Inr (map (\<lambda>row. h_flip row (w0, h0)) rows)"
      unfolding first by (rule flip_rows_h)
    then have "RandomFlipClip_call rf flip_prob (ListClip frames) (BoxArray rows)
        = Inr (ListClip frames, Some (BoxList (map (\<lambda>row. h_flip row (w0, h0)) rows)))"
      using h transposed
      by (simp add: RandomFlipClip_call_def fmt random_flip_def flip_data_def)
    moreover have "map length (map (\<lambda>row. h_flip row (w0, h0)) rows) = map length rows"
      by (simp add: length_h_flip)
    ultimately show ?thesis by blast
  qed
  have vflip: "RandomFlipClip_call rf flip_prob (ListClip frames) (BoxArray rows)
          = Inr (ListClip frames, Some (BoxList rows))"
    if v: "flip_prob < self_p rf \<and> direction rf = ''v'' \<and> s = 0"
  proof -
    have "\<forall>row \<in> set rows. row = []"
      using rect v by simp
    then have "flip_rows v_flip frames rows = Inr rows"
      unfolding first by (rule flip_rows_v_no_slot)
    then show ?thesis
      using v transposed
      by (simp add: RandomFlipClip_call_def fmt random_flip_def flip_data_def)
  qed
  have rotate: "\<exists>out. RandomRotateClip_call rr draw (ListClip frames) (BoxArray rows)
             = Inr (ListClip frames, Some (BoxArray out))
           \<and> map length out = map length rows"
    if a: "angles rr \<noteq> []"
  proof -
    define angle where "angle = angles rr ! (draw mod length (angles rr))"
    have "map_frames (pil_rotate angle) frames = Inr frames"
      using imgs by (rule map_frames_rotate)
    moreover have "rotate_rows (ListClip frames) angle rows
        = Inr (map (\<lambda>row. rotate_bbox row (w0, h0) angle) rows)"
      unfolding first by (rule rotate_rows_images)
    ultimately have "RandomRotateClip_call rr draw (ListClip frames) (BoxArray rows)
        = Inr (ListClip frames, Some (BoxArray (map (\<lambda>row. rotate_bbox row (w0, h0) angle) rows)))"
      using a by (simp add: RandomRotateClip_call_def random_choice_def angle_def)
    moreover have "map length (map (\<lambda>row. rotate_bbox row (w0, h0) angle) rows) = map length rows"
      by (simp add: length_rotate_bbox)
    ultimately show ?thesis by blast
  qed
  from resize crop centre random noflip hflip vflip rotate show ?thesis
    by blast
qed

theorem box_shape_never_validated_witness:
  "(\<exists>out ob. ResizeClip_call \<lparr>size_h = 50, size_w = 50\<rparr> (ListClip [PILImage 100 100 3])
        (BoxArray [[(10, 10, 50, 50), (20, 20, 60, 60)]])
        = Inr (ListClip out, Some (BoxArray ob)) \<and> length out = 1 \<and> length ob = 1)
   \<and> (\<exists>out ob. CropClip_call \<lparr>bbox_xmin = 15, bbox_xmax = 35, bbox_ymin = 15, bbox_ymax = 35\<rparr>
        (ListClip [PILImage 100 100 3]) (BoxArray [[(10, 10, 50, 50), (20, 20, 60, 60)]])
        = Inr (ListClip out, Some (BoxArray ob)) \<and> length out = 1 \<and> length ob = 1)
   \<and> snd (CenterCropClip_call
          \<lparr>center_crop_w = 20, center_crop_h = 20,
           center_crop_transform = \<lparr>bbox_xmin = 0, bbox_xmax = 0, bbox_ymin = 20, bbox_ymax = 20\<rparr>\<rparr>
          (ListClip [PILImage 100 100 3]) (BoxArray [[(10, 10, 50, 50), (20, 20, 60, 60)]]))
       = CropClip_call \<lparr>bbox_xmin = 40, bbox_xmax = 60, bbox_ymin = 40, bbox_ymax = 60\<rparr>
           (ListClip [PILImage 100 100 3]) (BoxArray [[(10, 10, 50, 50), (20, 20, 60, 60)]])
   \<and> snd (RandomCropClip_call (RandomCropClip_init 20 20) 47 3
          (ListClip [PILImage 100 100 3]) (BoxArray [[(10, 10, 50, 50), (20, 20, 60, 60)]]))
       = CropClip_call \<lparr>bbox_xmin = 47, bbox_xmax = 67, bbox_ymin = 3, bbox_ymax = 23\<rparr>
           (ListClip [PILImage 100 100 3]) (BoxArray [[(10, 10, 50, 50), (20, 20, 60, 60)]])
   \<and> (\<exists>out. RandomFlipClip_call \<lparr>direction = ''h'', self_p = 1 / 2\<rparr> (1 / 4)
        (ListClip [PILImage 100 100 3]) (BoxArray [[(10, 10, 50, 50), (20, 20, 60, 60)]])
        = Inr (ListClip [PILImage 100 100 3], Some (BoxList out)) \<and> map length out = [2])
   \<and> (\<exists>out. RandomRotateClip_call \<lparr>angles = [0, 90, 180, 270]\<rparr> 2
        (ListClip [PILImage 100 100 3]) (BoxArray [[(10, 10, 50, 50), (20, 20, 60, 60)]])
        = Inr (ListClip [PILImage 100 100 3], Some (BoxArray out)) \<and> map length out = [2])
   \<and> ResizeClip_call \<lparr>size_h = 50, size_w = 50\<rparr>
        (ListClip [PILImage 100 100 3, PILImage 100 100 3])
        (BoxArray [[(10, 10, 50, 50)], [(10, 10, 50, 50)]]) = Inl IndexError
   \<and> CropClip_call \<lparr>bbox_xmin = 15, bbox_xmax = 35, bbox_ymin = 15, bbox_ymax = 35\<rparr>
        (ListClip [PILImage 100 100 3, PILImage 100 100 3])
        (BoxArray [[(10, 10, 50, 50)], [(10, 10, 50, 50)]]) = Inl IndexError
   \<and> RandomFlipClip_call \<lparr>direction = ''h'', self_p = 1 / 2\<rparr> (3 / 4)
        (ListClip [PILImage 100 100 3, PILImage 100 100 3])
        (BoxArray [[(10, 10, 50, 50)], [(10, 10, 50, 50)]])
       = Inr (ListClip [PILImage 100 100 3, PILImage 100 100 3],
              Some (BoxArray [[(10, 10, 50, 50)], [(10, 10, 50, 50)]]))
   \<and> RandomFlipClip_call \<lparr>direction = ''v'', self_p = 1 / 2\<rparr> (1 / 4)
        (ListClip [PILImage 100 100 3, PILImage 100 100 3]) (BoxArray [[]])
       = Inr (ListClip [PILImage 100 100 3, PILImage 100 100 3], Some (BoxList [[]]))"
proof -
  let ?rs = "\<lparr>size_h = 50, size_w = 50\<rparr>"
  let ?cs = "\<lparr>bbox_xmin = 15, bbox_xmax = 35, bbox_ymin = 15, bbox_ymax = 35\<rparr>"
  let ?cc = "\<lparr>center_crop_w = 20, center_crop_h = 20,
              center_crop_transform = \<lparr>bbox_xmin = 0, bbox_xmax = 0, bbox_ymin = 20, bbox_ymax = 20\<rparr>\<rparr>"
  let ?h = "\<lparr>direction = ''h'', self_p = 1 / 2\<rparr>"
  let ?v = "\<lparr>direction = ''v'', self_p = 1 / 2\<rparr>"
  let ?rr = "\<lparr>angles = [0, 90, 180, 270]\<rparr>"
  have one: "\<forall>fr \<in> set [PILImage 100 100 3]. \<exists>w h b. fr = PILImage w h b \<and> 0 < w \<and> 0 < h"
    by simp
  have two: "\<forall>fr \<in> set [PILImage 100 100 3, PILImage 100 100 3].
      \<exists>w h b. fr = PILImage w h b \<and> 0 < w \<and> 0 < h"
    by simp
  have wide_rect: "\<forall>row \<in> set [[(10, 10, 50, 50), (20, 20, 60, 60) :: box]]. length row = 2"
    by simp
  have narrow_rect: "\<forall>row \<in> set [[(10, 10, 50, 50) :: box], [(10, 10, 50, 50)]]. length row = 1"
    by simp
  have empty_rect: "\<forall>row \<in> set [[] :: box list]. length row = 0"
    by simp
  have wide_coords: "\<forall>row \<in> set [[(10, 10, 50, 50), (20, 20, 60, 60) :: box]].
      \<forall>(x0, y0, x1, y1) \<in> set row.
        \<bar>x0\<bar> \<le> 2 ^ 31 \<and> \<bar>y0\<bar> \<le> 2 ^ 31 \<and> \<bar>x1\<bar> \<le> 2 ^ 31 \<and> \<bar>y1\<bar> \<le> 2 ^ 31"
    by simp
  have narrow_coords: "\<forall>row \<in> set [[(10, 10, 50, 50) :: box], [(10, 10, 50, 50)]].
      \<forall>(x0, y0, x1, y1) \<in> set row.
        \<bar>x0\<bar> \<le> 2 ^ 31 \<and> \<bar>y0\<bar> \<le> 2 ^ 31 \<and> \<bar>x1\<bar> \<le> 2 ^ 31 \<and> \<bar>y1\<bar> \<le> 2 ^ 31"
    by simp
  have empty_coords: "\<forall>row \<in> set [[] :: box list].
      \<forall>(x0, y0, x1, y1) \<in> set row.
        \<bar>x0\<bar> \<le> 2 ^ 31 \<and> \<bar>y0\<bar> \<le> 2 ^ 31 \<and> \<bar>x1\<bar> \<le> 2 ^ 31 \<and> \<bar>y1\<bar> \<le> 2 ^ 31"
    by simp
  note wide = box_shape_never_validated [OF one refl wide_rect wide_coords, where rs = ?rs and cs = ?cs
      and cc = ?cc and rc = "RandomCropClip_init 20 20" and dx = 47 and dy = 3
      and rf = ?h and flip_prob = "1 / 4" and rr = ?rr and draw = 2]
  note narrow = box_shape_never_validated [OF two refl narrow_rect narrow_coords, where rs = ?rs and cs = ?cs
      and rf = ?h and flip_prob = "3 / 4"]
  note none = box_shape_never_validated [OF two refl empty_rect empty_coords, where rf = ?v
      and flip_prob = "1 / 4"]
  have a: "(\<exists>out ob. ResizeClip_call ?rs (ListClip [PILImage 100 100 3])
        (BoxArray [[(10, 10, 50, 50), (20, 20, 60, 60)]])
        = Inr (ListClip out, Some (BoxArray ob)) \<and> length out = 1 \<and> length ob = 1)"
    using wide [THEN conjunct1] by (simp, blast)
  have b: "(\<exists>out ob. CropClip_call ?cs (ListClip [PILImage 100 100 3])
        (BoxArray [[(10, 10, 50, 50), (20, 20, 60, 60)]])
        = Inr (ListClip out, Some (BoxArray ob)) \<and> length out = 1 \<and> length ob = 1)"
    using wide [THEN conjunct2, THEN conjunct1] by (simp, blast)
  have c: "snd (CenterCropClip_call ?cc
          (ListClip [PILImage 100 100 3]) (BoxArray [[(10, 10, 50, 50), (20, 20, 60, 60)]]))
       = CropClip_call \<lparr>bbox_xmin = 40, bbox_xmax = 60, bbox_ymin = 40, bbox_ymax = 60\<rparr>
           (ListClip [PILImage 100 100 3]) (BoxArray [[(10, 10, 50, 50), (20, 20, 60, 60)]])"
    using wide [THEN conjunct2, THEN conjunct2, THEN conjunct1]
    by (simp add: calculate_center_def py_int_def)
  have d: "snd (RandomCropClip_call (RandomCropClip_init 20 20) 47 3
          (ListClip [PILImage 100 100 3]) (BoxArray [[(10, 10, 50, 50), (20, 20, 60, 60)]]))
       = CropClip_call \<lparr>bbox_xmin = 47, bbox_xmax = 67, bbox_ymin = 3, bbox_ymax = 23\<rparr>
           (ListClip [PILImage 100 100 3]) (BoxArray [[(10, 10, 50, 50), (20, 20, 60, 60)]])"
    using wide [THEN conjunct2, THEN conjunct2, THEN conjunct2, THEN conjunct1]
    by (simp add: RandomCropClip_init_def)
  have e: "(\<exists>out. RandomFlipClip_call ?h (1 / 4)
        (ListClip [PILImage 100 100 3]) (BoxArray [[(10, 10, 50, 50), (20, 20, 60, 60)]])
        = Inr (ListClip [PILImage 100 100 3], Some (BoxList out)) \<and> map length out = [2])"
    using wide [THEN conjunct2, THEN conjunct2, THEN conjunct2, THEN conjunct2, THEN conjunct2,
        THEN conjunct1]
    by (simp add: numeral_2_eq_2)
  have f: "(\<exists>out. RandomRotateClip_call ?rr 2
        (ListClip [PILImage 100 100 3]) (BoxArray [[(10, 10, 50, 50), (20, 20, 60, 60)]])
        = Inr (ListClip [PILImage 100 100 3], Some (BoxArray out)) \<and> map length out = [2])"
    using wide [THEN conjunct2, THEN conjunct2, THEN conjunct2, THEN conjunct2, THEN conjunct2,
        THEN conjunct2, THEN conjunct2]
    by (simp add: numeral_2_eq_2)
  have g: "ResizeClip_call ?rs (ListClip [PILImage 100 100 3, PILImage 100 100 3])
        (BoxArray [[(10, 10, 50, 50)], [(10, 10, 50, 50)]]) = Inl IndexError"
    using narrow [THEN conjunct1] by simp
  have h: "CropClip_call ?cs (ListClip [PILImage 100 100 3, PILImage 100 100 3])
        (BoxArray [[(10, 10, 50, 50)], [(10, 10, 50, 50)]]) = Inl IndexError"
    using narrow [THEN conjunct2, THEN conjunct1] by simp
  have i: "RandomFlipClip_call ?h (3 / 4)
        (ListClip [PILImage 100 100 3, PILImage 100 100 3])
        (BoxArray [[(10, 10, 50, 50)], [(10, 10, 50, 50)]])
       = Inr (ListClip [PILImage 100 100 3, PILImage 100 100 3],
              Some (BoxArray [[(10, 10, 50, 50)], [(10, 10, 50, 50)]]))"
    using narrow [THEN conjunct2, THEN conjunct2, THEN conjunct2, THEN conjunct2, THEN conjunct1]
    by simp
  have j: "RandomFlipClip_call ?v (1 / 4)
        (ListClip [PILImage 100 100 3, PILImage 100 100 3]) (BoxArray [[]])
       = Inr (ListClip [PILImage 100 100 3, PILImage 100 100 3], Some (BoxList [[]]))"
    using none [THEN conjunct2, THEN conjunct2, THEN conjunct2, THEN conjunct2, THEN conjunct2,
        THEN conjunct2, THEN conjunct1]
    by simp
  from a b c d e f g h i j show ?thesis
    by (intro conjI)
qed

end
